theory Spec2Isabelle
  imports Complex_Main "HOL-Library.Sublist" "HOL-Library.AList"
begin

section \<open>JavaScript values\<close>

text \<open>
  Tool arguments, tool results, thrown faults, schemas and LLM responses are untyped
  JavaScript values in the source (\<open>any\<close>, \<open>Record<string, unknown>\<close>). The values
  here are the JSON values, \<open>undefined\<close>, \<open>NaN\<close>, \<open>Error\<close> objects (with their name and
  message) and objects that have no prototype (\<open>Object.create(null)\<close>). The keys of
  an object are taken to be distinct. Numbers are integers; functions, symbols,
  accessors, proxies and cyclic objects are not among the values, so a property of an
  object is never callable.
\<close>

datatype jsval =
    JUndefined
  | JNull
  | JBool bool
  | JNum int
  | JNaN
  | JStr string
  | JArr "jsval list"
  | JObj "(string \<times> jsval) list"
  | JBare "(string \<times> jsval) list"
  | JError string string

text \<open>\<open>!!v\<close>: the falsy values are \<open>undefined\<close>, \<open>null\<close>, \<open>false\<close>, \<open>0\<close>, \<open>NaN\<close> and \<open>""\<close>.\<close>

fun truthy :: "jsval \<Rightarrow> bool" where
  "truthy JUndefined = False"
| "truthy JNull = False"
| "truthy (JBool b) = b"
| "truthy (JNum n) = (n \<noteq> 0)"
| "truthy JNaN = False"
| "truthy (JStr s) = (s \<noteq> [])"
| "truthy (JArr xs) = True"
| "truthy (JObj kvs) = True"
| "truthy (JBare kvs) = True"
| "truthy (JError n m) = True"

text \<open>\<open>a || b\<close> on values.\<close>

definition js_or :: "jsval \<Rightarrow> jsval \<Rightarrow> jsval" where
  "js_or a b = (if truthy a then a else b)"

text \<open>\<open>typeof v === 'object' && v !== null\<close>\<close>

fun isObject :: "jsval \<Rightarrow> bool" where
  "isObject (JObj kvs) = True"
| "isObject (JBare kvs) = True"
| "isObject (JArr xs) = True"
| "isObject (JError n m) = True"
| "isObject v = False"

text \<open>Decimal rendering of a number inside a template literal.\<close>

definition digitChar :: "nat \<Rightarrow> char" where
  "digitChar d = ''0123456789'' ! d"

fun showNat :: "nat \<Rightarrow> string" where
  "showNat n = (if n < 10 then [digitChar n] else showNat (n div 10) @ [digitChar (n mod 10)])"

declare showNat.simps [simp del]

definition showInt :: "int \<Rightarrow> string" where
  "showInt i = (if i < 0 then ''-'' @ showNat (nat (- i)) else showNat (nat i))"

text \<open>
  The own properties of a value: the entries of an object, the elements and the
  length of an array, the message of an \<open>Error\<close> object (its \<open>stack\<close> is left out).
  A primitive value is given none (the length and the characters of a string are
  never read by the source).
\<close>

fun ownProperties :: "jsval \<Rightarrow> (string \<times> jsval) list" where
  "ownProperties (JObj kvs) = kvs"
| "ownProperties (JBare kvs) = kvs"
| "ownProperties (JArr xs) =
     zip (map showNat [0..<length xs]) xs @ [(''length'', JNum (int (length xs)))]"
| "ownProperties (JError n m) = [(''message'', JStr m)]"
| "ownProperties v = []"

text \<open>
  \<open>v.k\<close> on a value that is not \<open>null\<close> or \<open>undefined\<close>. The names that the source
  reads (\<open>message\<close>, \<open>error\<close>, \<open>success\<close>, \<open>reasoning\<close>, \<open>summary\<close>) are inherited from no
  prototype, so the value is that of the own property, or \<open>undefined\<close>.
\<close>

definition getProp :: "jsval \<Rightarrow> string \<Rightarrow> jsval" where
  "getProp v k = (case map_of (ownProperties v) k of None \<Rightarrow> JUndefined | Some x \<Rightarrow> x)"

text \<open>\<open>v?.k\<close>\<close>

fun optChain :: "jsval \<Rightarrow> string \<Rightarrow> jsval" where
  "optChain JUndefined k = JUndefined"
| "optChain JNull k = JUndefined"
| "optChain v k = getProp v k"

text \<open>
  The \<open>Error\<close> objects that the source itself throws with \<open>new Error(message)\<close>, and
  the \<open>TypeError\<close> objects that the engine raises, each with its message. A
  \<open>TypeError\<close> is raised when a property of \<open>null\<close> or \<open>undefined\<close> is read, when
  something that is not a function is called, and when an object cannot be converted
  to a string; the messages are worded as V8 words them.
\<close>

datatype js_error = Error string | TypeError string

text \<open>\<open>error.message || String(error)\<close> for such an object.\<close>

fun errorText :: "js_error \<Rightarrow> string" where
  "errorText (Error m) = (if m = [] then ''Error'' else m)"
| "errorText (TypeError m) = (if m = [] then ''TypeError'' else m)"

text \<open>The object as a value, as a \<open>catch\<close> receives it.\<close>

fun errorObject :: "js_error \<Rightarrow> jsval" where
  "errorObject (Error m) = JError ''Error'' m"
| "errorObject (TypeError m) = JError ''TypeError'' m"

definition cannotReadProperty :: "string \<Rightarrow> string \<Rightarrow> js_error" where
  "cannotReadProperty v k =
     TypeError (''Cannot read properties of '' @ v @ '' (reading '' @ [CHR 0x27] @ k
                @ [CHR 0x27] @ '')'')"

definition notAFunction :: "string \<Rightarrow> js_error" where
  "notAFunction callee = TypeError (callee @ '' is not a function'')"

definition notPrimitive :: js_error where
  "notPrimitive = TypeError ''Cannot convert object to primitive value''"

text \<open>
  \<open>String(v)\<close>, which is also how a template literal renders a value. An object is
  rendered by its \<open>toString\<close> method: the inherited one gives \<open>[object Object]\<close>, that
  of an array joins the elements with commas (\<open>null\<close> and \<open>undefined\<close> as nothing),
  that of an \<open>Error\<close> object gives its name and message. An object with an own
  \<open>toString\<close> property (which is not callable) or with no prototype cannot be
  converted, and a \<open>TypeError\<close> is raised.
\<close>

fun toStr :: "jsval \<Rightarrow> js_error + string"
  and joinElements :: "jsval list \<Rightarrow> js_error + string" where
  "toStr JUndefined = Inr ''undefined''"
| "toStr JNull = Inr ''null''"
| "toStr (JBool b) = Inr (if b then ''true'' else ''false'')"
| "toStr (JNum n) = Inr (showInt n)"
| "toStr JNaN = Inr ''NaN''"
| "toStr (JStr s) = Inr s"
| "toStr (JArr xs) = joinElements xs"
| "toStr (JObj kvs) =
     (if map_of kvs ''toString'' = None then Inr ''[object Object]'' else Inl notPrimitive)"
| "toStr (JBare kvs) = Inl notPrimitive"
| "toStr (JError n m) =
     Inr (if m = [] then n else if n = [] then m else n @ '': '' @ m)"
| "joinElements [] = Inr []"
| "joinElements (x # xs) =
     (case (if x = JUndefined \<or> x = JNull then Inr [] else toStr x) of
        Inl e \<Rightarrow> Inl e
      | Inr str \<Rightarrow>
          if xs = [] then Inr str
          else (case joinElements xs of
                  Inl e \<Rightarrow> Inl e
                | Inr rest \<Rightarrow> Inr (str @ '','' @ rest)))"

text \<open>
  \<open>v.hasOwnProperty(k)\<close> on an object: the method is looked up on the object itself.
  An own property of that name shadows the inherited method and is not callable, and
  an object without a prototype has no such method: the call raises a \<open>TypeError\<close>.
  The argument is the text of the callee, which the message of the error quotes.
\<close>

fun hasOwnProperty :: "string \<Rightarrow> jsval \<Rightarrow> string \<Rightarrow> js_error + bool" where
  "hasOwnProperty callee (JObj kvs) k =
     (if map_of kvs ''hasOwnProperty'' = None then Inr (map_of kvs k \<noteq> None)
      else Inl (notAFunction callee))"
| "hasOwnProperty callee (JBare kvs) k = Inl (notAFunction callee)"
| "hasOwnProperty callee v k = Inr (map_of (ownProperties v) k \<noteq> None)"

text \<open>\<open>s.startsWith(p)\<close>\<close>

definition startsWith :: "string \<Rightarrow> string \<Rightarrow> bool" where
  "startsWith p s = (take (length p) s = p)"

section \<open>Messages\<close>

text \<open>
  \<open>ChatMessage\<close> is declared in \<open>ui/ChatView\<close>, which is not among the sources.
  The model message and the tool-result message are taken from the object literals
  that the runner builds and from the fields it reads.
\<close>

text \<open>
  Modelled from the spec: the user message (free text and an optional image), which
  the runner only looks for and never builds or opens.
\<close>

record user_message =
  um_text :: string
  um_image :: "string option"

record model_message =
  mm_action :: string
  mm_toolName :: "string option"
  mm_toolArgs :: "jsval option"
  mm_answer :: "string option"
  mm_isFinalAnswer :: bool
  mm_reasoning :: jsval

record tool_result_message =
  tr_toolName :: string
  tr_resultText :: jsval
  tr_isError :: bool
  tr_error :: "jsval option"
  tr_resultData :: "jsval option"

datatype message =
    USER user_message
  | MODEL model_message
  | TOOL_RESULT tool_result_message

section \<open>Results, hooks and configurations\<close>

datatype reason = R_final_answer | R_error | R_max_iterations | R_handed_off

text \<open>
  Modelled from the spec: \<open>ConfigurableAgentResult\<close> (declared in
  \<open>ConfigurableAgentTool\<close>): a success flag, the output text or the error text, the
  message history unless it is suppressed, and the termination reason.
\<close>

record agent_result =
  success :: bool
  res_output :: "string option"
  res_error :: "string option"
  intermediateSteps :: "message list option"
  terminationReason :: "reason option"

type_synonym result_hook = "string \<Rightarrow> message list \<Rightarrow> reason \<Rightarrow> agent_result"

record hooks =
  prepareInitialMessages :: "(message list \<Rightarrow> message list) option"
  createSuccessResult :: result_hook
  createErrorResult :: result_hook

datatype trigger = T_llm_tool_call | T_max_iterations

record handoff_config =
  targetAgentName :: string
  trigger :: "trigger option"
  includeToolResults :: "string list option"

text \<open>
  The configuration of a \<open>ConfigurableAgentTool\<close>, with the fields the runner
  reads. The two result hooks of a configuration take the configuration itself as
  their fourth argument in the source; here they are kept already applied to it.
\<close>

record agent_config =
  cfg_systemPrompt :: string
  cfg_tools :: "string list"
  cfg_handoffs :: "handoff_config list option"
  cfg_maxIterations :: "nat option"
  cfg_modelName :: "string option"
  cfg_temperature :: "real option"
  cfg_includeIntermediateStepsOnReturn :: "bool option"
  cfg_createSuccessResult :: "result_hook option"
  cfg_createErrorResult :: "result_hook option"

text \<open>
  The outside world (page, network, model provider) is a state of type \<open>'w\<close>
  passed through every external call; \<open>llmCalls\<close> counts the calls made to the
  LLM client.
\<close>

record 'w st =
  world :: 'w
  llmCalls :: nat

record 'w tool =
  tool_name :: string
  tool_description :: string
  tool_schema :: jsval
  execute :: "jsval \<Rightarrow> 'w \<Rightarrow> (jsval + jsval) \<times> 'w"

text \<open>A registered tool is a plain tool or a \<open>ConfigurableAgentTool\<close>, which is a
  tool that also carries an agent configuration.\<close>

datatype 'w registered =
    PlainTool "'w tool"
  | ConfigurableAgentTool "'w tool" agent_config

fun toolOf :: "'w registered \<Rightarrow> 'w tool" where
  "toolOf (PlainTool t) = t"
| "toolOf (ConfigurableAgentTool t c) = t"

fun isConfigurableAgentTool :: "'w registered \<Rightarrow> bool" where
  "isConfigurableAgentTool (PlainTool t) = False"
| "isConfigurableAgentTool (ConfigurableAgentTool t c) = True"

text \<open>\<open>maxIterations\<close> is a count: a negative or fractional number is not modelled.\<close>

record 'w runner_config =
  apiKey :: string
  modelName :: string
  systemPrompt :: string
  tools :: "'w registered list"
  maxIterations :: nat
  temperature :: "real option"

record tool_schema =
  ts_type :: string
  ts_name :: string
  ts_description :: string
  ts_parameters :: jsval

record llm_request =
  req_apiKey :: string
  req_modelName :: string
  req_promptText :: string
  req_tools :: "tool_schema list"
  req_systemPrompt :: string
  req_temperature :: real

datatype parsed_action =
    ToolCall string jsval
  | FinalAnswer string
  | ActionError string

text \<open>
  The external collaborators of the runner: the LLM client and its response parser,
  the page-context enhancer, the prompt formatter, the Tool Registry (populated at
  startup) and \<open>JSON.stringify\<close>. A call of the LLM client or of a tool either
  throws (\<open>Inl\<close>) or returns (\<open>Inr\<close>), and changes the world; \<open>JSON.stringify\<close>
  throws or returns as well. A tool and \<open>JSON.stringify\<close> may throw any value; the
  LLM client reports a failure as a thrown fault with a message, an \<open>Error\<close> object.
  The enhancer, the parser, the formatter and the result hooks are taken not to
  throw.
\<close>

record 'w env =
  callOpenAI :: "llm_request \<Rightarrow> 'w \<Rightarrow> (js_error + jsval) \<times> 'w"
  parseOpenAIResponse :: "jsval \<Rightarrow> parsed_action"
  enhancePromptWithPageContext :: "string \<Rightarrow> 'w \<Rightarrow> string \<times> 'w"
  formatPrompt :: "message list \<Rightarrow> string"
  getRegisteredTool :: "string \<Rightarrow> 'w registered option"
  jsonStringify :: "jsval \<Rightarrow> jsval + jsval"

type_synonym 'w run_result = "(agent_result \<times> 'w st) option"

type_synonym 'w runner =
  "message list \<Rightarrow> jsval \<Rightarrow> 'w runner_config \<Rightarrow> hooks
     \<Rightarrow> ('w tool \<times> agent_config) option \<Rightarrow> 'w st \<Rightarrow> 'w run_result"

section \<open>The handoff protocol: \<open>AgentRunner.executeHandoff\<close>\<close>

text \<open>The loop that collects the tool results named by \<open>includeToolResults\<close>.\<close>

fun collectToolResults :: "string list \<Rightarrow> message list \<Rightarrow> message list" where
  "collectToolResults allow [] = []"
| "collectToolResults allow (TOOL_RESULT tr # ms) =
     (if \<not> tr_isError tr \<and> tr_toolName tr \<noteq> [] \<and> tr_toolName tr \<in> set allow
      then TOOL_RESULT tr # collectToolResults allow ms
      else collectToolResults allow ms)"
| "collectToolResults allow (m # ms) = collectToolResults allow ms"

fun isUserMessage :: "message \<Rightarrow> bool" where
  "isUserMessage (USER u) = True"
| "isUserMessage m = False"

text \<open>The messages handed to the target agent.\<close>

definition handoffMessages :: "handoff_config \<Rightarrow> message list \<Rightarrow> message list" where
  "handoffMessages handoffConfig currentMessages =
     (case includeToolResults handoffConfig of
        None \<Rightarrow> currentMessages
      | Some allow \<Rightarrow>
          if allow = [] then currentMessages
          else (case find isUserMessage currentMessages of
                  None \<Rightarrow> []
                | Some firstUserMessage \<Rightarrow> [firstUserMessage])
               @ collectToolResults allow currentMessages)"

definition targetNotFoundMsg :: "string \<Rightarrow> string" where
  "targetNotFoundMsg targetName =
     ''Handoff target '' @ [CHR 0x27] @ targetName @ [CHR 0x27]
       @ '' not found or is not a ConfigurableAgentTool.''"

text \<open>\<open>targetConfig.modelName || defaultModelName\<close> and
  \<open>targetConfig.maxIterations || defaultMaxIterations\<close>: an empty name and a zero
  count are falsy.\<close>

definition orDefaultName :: "string option \<Rightarrow> string \<Rightarrow> string" where
  "orDefaultName v d = (case v of None \<Rightarrow> d | Some s \<Rightarrow> if s = [] then d else s)"

definition orDefaultCount :: "nat option \<Rightarrow> nat \<Rightarrow> nat" where
  "orDefaultCount v d = (case v of None \<Rightarrow> d | Some n \<Rightarrow> if n = 0 then d else n)"

definition targetRunnerConfig ::
  "'w env \<Rightarrow> agent_config \<Rightarrow> string \<Rightarrow> string \<Rightarrow> string \<Rightarrow> nat \<Rightarrow> real \<Rightarrow> 'w runner_config" where
  "targetRunnerConfig env targetConfig key enhancedSystemPrompt defaultModelName
       defaultMaxIterations defaultTemperature =
     \<lparr> apiKey = key,
       modelName = orDefaultName (cfg_modelName targetConfig) defaultModelName,
       systemPrompt = enhancedSystemPrompt,
       tools = List.map_filter (getRegisteredTool env) (cfg_tools targetConfig),
       maxIterations = orDefaultCount (cfg_maxIterations targetConfig) defaultMaxIterations,
       temperature = Some (case cfg_temperature targetConfig of
                             None \<Rightarrow> defaultTemperature | Some t \<Rightarrow> t) \<rparr>"

definition targetRunnerHooks :: "agent_config \<Rightarrow> result_hook \<Rightarrow> result_hook \<Rightarrow> hooks" where
  "targetRunnerHooks targetConfig defaultCreateSuccessResult defaultCreateErrorResult =
     \<lparr> prepareInitialMessages = None,
       createSuccessResult = (case cfg_createSuccessResult targetConfig of
                                Some h \<Rightarrow> h | None \<Rightarrow> defaultCreateSuccessResult),
       createErrorResult = (case cfg_createErrorResult targetConfig of
                              Some h \<Rightarrow> h | None \<Rightarrow> defaultCreateErrorResult) \<rparr>"

text \<open>\<open>llmToolArgs ?? originalArgs\<close>\<close>

fun nullishOr :: "jsval option \<Rightarrow> jsval \<Rightarrow> jsval" where
  "nullishOr None d = d"
| "nullishOr (Some JUndefined) d = d"
| "nullishOr (Some JNull) d = d"
| "nullishOr (Some v) d = v"

text \<open>What \<open>executeHandoff\<close> makes of the target's result.\<close>

definition finishHandoff :: "agent_config \<Rightarrow> message list \<Rightarrow> agent_result \<Rightarrow> agent_result" where
  "finishHandoff targetConfig currentMessages handoffResult =
     (let r = (case terminationReason handoffResult of
                 None \<Rightarrow> R_handed_off | Some x \<Rightarrow> x)
      in if cfg_includeIntermediateStepsOnReturn targetConfig = Some True
         then handoffResult
                \<lparr> intermediateSteps :=
                    Some (currentMessages
                          @ (case intermediateSteps handoffResult of None \<Rightarrow> [] | Some s \<Rightarrow> s)),
                  terminationReason := Some r \<rparr>
         else handoffResult \<lparr> terminationReason := Some r, intermediateSteps := None \<rparr>)"

text \<open>
  \<open>executeHandoff\<close>. Its first argument stands for \<open>AgentRunner.run\<close>, which it
  calls on the target agent; \<open>None\<close> is a call that does not return.
\<close>

definition executeHandoff ::
  "'w runner \<Rightarrow> 'w env \<Rightarrow> message list \<Rightarrow> jsval \<Rightarrow> handoff_config
     \<Rightarrow> ('w tool \<times> agent_config) \<Rightarrow> string \<Rightarrow> string \<Rightarrow> nat \<Rightarrow> real
     \<Rightarrow> result_hook \<Rightarrow> result_hook \<Rightarrow> jsval option \<Rightarrow> 'w st \<Rightarrow> 'w run_result" where
  "executeHandoff runner env currentMessages originalArgs handoffConfig executingAgent key
       defaultModelName defaultMaxIterations defaultTemperature
       defaultCreateSuccessResult defaultCreateErrorResult llmToolArgs s =
     (case getRegisteredTool env (targetAgentName handoffConfig) of
        Some (ConfigurableAgentTool targetAgentTool targetConfig) \<Rightarrow>
          (let (enhancedSystemPrompt, w1) =
                 enhancePromptWithPageContext env (cfg_systemPrompt targetConfig) (world s)
           in case runner (handoffMessages handoffConfig currentMessages)
                     (nullishOr llmToolArgs originalArgs)
                     (targetRunnerConfig env targetConfig key enhancedSystemPrompt
                        defaultModelName defaultMaxIterations defaultTemperature)
                     (targetRunnerHooks targetConfig
                        defaultCreateSuccessResult defaultCreateErrorResult)
                     (Some (targetAgentTool, targetConfig))
                     (s \<lparr> world := w1 \<rparr>) of
                None \<Rightarrow> None
              | Some (handoffResult, s') \<Rightarrow>
                  Some (finishHandoff targetConfig currentMessages handoffResult, s'))
      | _ \<Rightarrow>
          Some (defaultCreateErrorResult
                  (targetNotFoundMsg (targetAgentName handoffConfig)) currentMessages R_error,
                s))"

section \<open>The execution loop: \<open>AgentRunner.run\<close>\<close>

definition toolSchemaOf :: "'w registered \<Rightarrow> tool_schema" where
  "toolSchemaOf t =
     \<lparr> ts_type = ''function'',
       ts_name = tool_name (toolOf t),
       ts_description = tool_description (toolOf t),
       ts_parameters = tool_schema (toolOf t) \<rparr>"

text \<open>\<open>new Map(tools.map(tool => [tool.name, tool]))\<close>: a later tool of the same
  name replaces an earlier one.\<close>

definition initialToolMap :: "'w registered list \<Rightarrow> (string \<rightharpoonup> 'w registered)" where
  "initialToolMap ts = fold (\<lambda>t m. m(tool_name (toolOf t) \<mapsto> t)) ts Map.empty"

definition handoffToolName :: "string \<Rightarrow> string" where
  "handoffToolName target = ''handoff_to_'' @ target"

definition handoffToolSchema :: "string \<Rightarrow> 'w tool \<Rightarrow> tool_schema" where
  "handoffToolSchema target targetTool =
     \<lparr> ts_type = ''function'',
       ts_name = handoffToolName target,
       ts_description =
         ''Handoff the current task to the specialized agent: '' @ target
         @ ''. Use this agent when the task requires '' @ target @ [CHR 0x27]
         @ ''s capabilities. Agent Description: '' @ tool_description targetTool,
       ts_parameters = tool_schema targetTool \<rparr>"

definition isLlmTrigger :: "handoff_config \<Rightarrow> bool" where
  "isLlmTrigger h = (trigger h = None \<or> trigger h = Some T_llm_tool_call)"

text \<open>The loop over the configured handoffs that adds the \<open>handoff_to_\<close> tools.\<close>

fun addHandoffTools ::
  "'w env \<Rightarrow> handoff_config list \<Rightarrow> tool_schema list \<times> (string \<rightharpoonup> 'w registered)
     \<Rightarrow> tool_schema list \<times> (string \<rightharpoonup> 'w registered)" where
  "addHandoffTools env [] acc = acc"
| "addHandoffTools env (h # hs) (toolSchemas, toolMap) =
     (if isLlmTrigger h then
        (case getRegisteredTool env (targetAgentName h) of
           Some (ConfigurableAgentTool targetTool c) \<Rightarrow>
             addHandoffTools env hs
               (toolSchemas @ [handoffToolSchema (targetAgentName h) targetTool],
                toolMap(handoffToolName (targetAgentName h) \<mapsto> ConfigurableAgentTool targetTool c))
         | _ \<Rightarrow> addHandoffTools env hs (toolSchemas, toolMap))
      else addHandoffTools env hs (toolSchemas, toolMap))"

definition agentHandoffs :: "('w tool \<times> agent_config) option \<Rightarrow> handoff_config list option" where
  "agentHandoffs executingAgent =
     (case executingAgent of None \<Rightarrow> None | Some (t, c) \<Rightarrow> cfg_handoffs c)"

definition buildTools ::
  "'w env \<Rightarrow> 'w runner_config \<Rightarrow> ('w tool \<times> agent_config) option
     \<Rightarrow> tool_schema list \<times> (string \<rightharpoonup> 'w registered)" where
  "buildTools env config executingAgent =
     (case agentHandoffs executingAgent of
        None \<Rightarrow> (map toolSchemaOf (tools config), initialToolMap (tools config))
      | Some hs \<Rightarrow>
          addHandoffTools env hs (map toolSchemaOf (tools config), initialToolMap (tools config)))"

definition iterationInfo :: "nat \<Rightarrow> nat \<Rightarrow> string" where
  "iterationInfo iteration maxIter =
     [CHR 0x0A] @ ''## Current Progress'' @ [CHR 0x0A]
     @ ''- You are currently on step '' @ showNat (iteration + 1) @ '' of ''
     @ showNat maxIter @ '' maximum steps.'' @ [CHR 0x0A]
     @ ''- Focus on making meaningful progress with each step.''"

definition systemErrorMessage :: "string \<Rightarrow> message" where
  "systemErrorMessage errorMsg =
     TOOL_RESULT \<lparr> tr_toolName = ''system_error'',
                   tr_resultText = JStr errorMsg,
                   tr_isError = True,
                   tr_error = Some (JStr errorMsg),
                   tr_resultData = None \<rparr>"

text \<open>
  \<open>err.message || String(err)\<close> inside the template literal of the inner \<open>catch\<close>,
  for any thrown value: reading \<open>message\<close> of \<open>null\<close> or \<open>undefined\<close> raises a
  \<open>TypeError\<close>, and so may the conversion to a string.
\<close>

definition faultText :: "jsval \<Rightarrow> js_error + string" where
  "faultText err =
     (case err of
        JUndefined \<Rightarrow> Inl (cannotReadProperty ''undefined'' ''message'')
      | JNull \<Rightarrow> Inl (cannotReadProperty ''null'' ''message'')
      | _ \<Rightarrow>
          if truthy (getProp err ''message'') then toStr (getProp err ''message'')
          else toStr err)"

text \<open>
  The body of the inner \<open>try\<close>, from what \<open>execute\<close> did: \<open>toolResultText\<close>,
  \<open>toolIsError\<close> and \<open>toolResultData\<close>, or the value that is thrown to the inner
  \<open>catch\<close> by \<open>execute\<close>, by \<open>JSON.stringify\<close> or by a call of \<open>hasOwnProperty\<close>.
\<close>

definition toolTry :: "'w env \<Rightarrow> jsval + jsval \<Rightarrow> jsval + jsval \<times> bool \<times> jsval" where
  "toolTry env r =
     (case r of
        Inl err \<Rightarrow> Inl err
      | Inr toolResultData \<Rightarrow>
          (case (case toolResultData of
                   JStr str \<Rightarrow> Inr (JStr str)
                 | _ \<Rightarrow> jsonStringify env toolResultData) of
             Inl err \<Rightarrow> Inl err
           | Inr toolResultText \<Rightarrow>
               if isObject toolResultData then
                 (case hasOwnProperty ''toolResultData.hasOwnProperty'' toolResultData ''error'' of
                    Inl e \<Rightarrow> Inl (errorObject e)
                  | Inr hasError \<Rightarrow>
                      if hasError \<and> truthy (getProp toolResultData ''error'')
                      then Inr (js_or (getProp toolResultData ''error'') toolResultText,
                                True, toolResultData)
                      else
                        (case hasOwnProperty ''toolResultData.hasOwnProperty'' toolResultData
                                ''success'' of
                           Inl e \<Rightarrow> Inl (errorObject e)
                         | Inr hasSuccess \<Rightarrow>
                             if hasSuccess \<and> getProp toolResultData ''success'' = JBool False
                             then Inr (js_or (getProp toolResultData ''error'')
                                         (js_or (getProp toolResultData ''message'')
                                            toolResultText),
                                       True, toolResultData)
                             else Inr (toolResultText, False, toolResultData)))
               else Inr (toolResultText, False, toolResultData)))"

text \<open>
  The inner \<open>try\<close>/\<open>catch\<close> as a whole. The \<open>catch\<close> turns the thrown value into an
  error result; a fault raised in the \<open>catch\<close> itself leaves it (\<open>Inl\<close>) for the
  outer \<open>catch\<close>.
\<close>

definition toolOutcome :: "'w env \<Rightarrow> jsval + jsval \<Rightarrow> js_error + jsval \<times> bool \<times> jsval" where
  "toolOutcome env r =
     (case toolTry env r of
        Inr done \<Rightarrow> Inr done
      | Inl err \<Rightarrow>
          (case faultText err of
             Inl e \<Rightarrow> Inl e
           | Inr txt \<Rightarrow>
               (let toolResultText = ''Error during tool execution: '' @ txt
                in Inr (JStr toolResultText, True, JObj [(''error'', JStr toolResultText)]))))"

definition toolResultMessage :: "string \<Rightarrow> jsval \<times> bool \<times> jsval \<Rightarrow> message" where
  "toolResultMessage toolName r =
     (case r of (toolResultText, toolIsError, toolResultData) \<Rightarrow>
        TOOL_RESULT \<lparr> tr_toolName = toolName,
                      tr_resultText = toolResultText,
                      tr_isError = toolIsError,
                      tr_error = (if toolIsError then Some toolResultText else None),
                      tr_resultData = (if truthy toolResultData then Some toolResultData
                                       else None) \<rparr>)"

definition toolCallMessage :: "string \<Rightarrow> jsval \<Rightarrow> jsval \<Rightarrow> message" where
  "toolCallMessage toolName toolArgs openAIResponse =
     MODEL \<lparr> mm_action = ''tool'',
             mm_toolName = Some toolName,
             mm_toolArgs = Some toolArgs,
             mm_answer = None,
             mm_isFinalAnswer = False,
             mm_reasoning = optChain (getProp openAIResponse ''reasoning'') ''summary'' \<rparr>"

definition finalAnswerMessage :: "string \<Rightarrow> jsval \<Rightarrow> message" where
  "finalAnswerMessage answer openAIResponse =
     MODEL \<lparr> mm_action = ''final'',
             mm_toolName = None,
             mm_toolArgs = None,
             mm_answer = Some answer,
             mm_isFinalAnswer = True,
             mm_reasoning = optChain (getProp openAIResponse ''reasoning'') ''summary'' \<rparr>"

text \<open>
  \<open>executingAgent?.config.handoffs?.find(p)\<close>, together with the executing agent
  that the handoff then starts from.
\<close>

definition findHandoff ::
  "(handoff_config \<Rightarrow> bool) \<Rightarrow> ('w tool \<times> agent_config) option
     \<Rightarrow> (('w tool \<times> agent_config) \<times> handoff_config) option" where
  "findHandoff p executingAgent =
     (case executingAgent of
        None \<Rightarrow> None
      | Some agent \<Rightarrow>
          (case cfg_handoffs (snd agent) of
             None \<Rightarrow> None
           | Some hs \<Rightarrow>
               (case find p hs of None \<Rightarrow> None | Some h \<Rightarrow> Some (agent, h))))"

text \<open>
  The outcome of the outer \<open>try\<close> block of one iteration: a fault thrown to the
  outer \<open>catch\<close> (an \<open>Error\<close> that the block throws itself, or a \<open>TypeError\<close> raised
  in the inner \<open>catch\<close>), the end of the block (the loop goes on), or a \<open>return\<close>;
  with the state in which the block is left.
\<close>

datatype 'w attempt =
    Threw js_error "'w st"
  | Completed "'w st"
  | Returned "'w run_result"

text \<open>\<open>temperature ?? 0\<close>\<close>

definition temperatureOrZero :: "real option \<Rightarrow> real" where
  "temperatureOrZero t = (case t of None \<Rightarrow> 0 | Some x \<Rightarrow> x)"

text \<open>The outer \<open>try\<close> block, with the message list as it leaves it.\<close>

definition processAction ::
  "'w runner \<Rightarrow> 'w env \<Rightarrow> 'w runner_config \<Rightarrow> hooks \<Rightarrow> ('w tool \<times> agent_config) option
     \<Rightarrow> (string \<rightharpoonup> 'w registered) \<Rightarrow> jsval \<Rightarrow> message list \<Rightarrow> 'w st
     \<Rightarrow> message list \<times> 'w attempt" where
  "processAction runner env config hks executingAgent toolMap openAIResponse messages s =
     (case parseOpenAIResponse env openAIResponse of
        ToolCall toolName toolArgs \<Rightarrow>
          (let messages1 = messages @ [toolCallMessage toolName toolArgs openAIResponse]
           in case toolMap toolName of
                None \<Rightarrow>
                  (messages1, Threw (Error (''Agent requested unknown tool: '' @ toolName)) s)
              | Some toolToExecute \<Rightarrow>
                  if startsWith ''handoff_to_'' toolName \<and> isConfigurableAgentTool toolToExecute
                  then
                    (case findHandoff
                            (\<lambda>h. targetAgentName h = tool_name (toolOf toolToExecute)
                                  \<and> isLlmTrigger h) executingAgent of
                       None \<Rightarrow>
                         (messages1,
                          Threw (Error (''Internal error: No matching '' @ [CHR 0x27]
                                        @ ''llm_tool_call'' @ [CHR 0x27]
                                        @ '' handoff config found for '' @ toolName)) s)
                     | Some (agent, handoffConfig) \<Rightarrow>
                         (messages1,
                          Returned
                            (executeHandoff runner env messages1 toolArgs handoffConfig
                               agent (apiKey config) (modelName config)
                               (maxIterations config)
                               (temperatureOrZero (temperature config))
                               (createSuccessResult hks) (createErrorResult hks)
                               (Some toolArgs) s)))
                  else
                    (case execute (toolOf toolToExecute) toolArgs (world s) of
                       (r, w') \<Rightarrow>
                         (case toolOutcome env r of
                            Inr outcome \<Rightarrow>
                              (messages1 @ [toolResultMessage toolName outcome],
                               Completed (s \<lparr> world := w' \<rparr>))
                          | Inl e \<Rightarrow> (messages1, Threw e (s \<lparr> world := w' \<rparr>)))))
      | FinalAnswer answer \<Rightarrow>
          (let messages1 = messages @ [finalAnswerMessage answer openAIResponse]
           in (messages1,
               Returned (Some (createSuccessResult hks answer messages1 R_final_answer, s))))
      | ActionError e \<Rightarrow> (messages, Threw (Error e) s))"

text \<open>One pass through the body of the \<open>for\<close> loop.\<close>

datatype 'w step =
    NextIteration "message list" "'w st"
  | Finished "'w run_result"

definition llmRequest ::
  "'w env \<Rightarrow> 'w runner_config \<Rightarrow> tool_schema list \<Rightarrow> message list \<Rightarrow> string \<Rightarrow> llm_request" where
  "llmRequest env config toolSchemas messages currentSystemPrompt =
     \<lparr> req_apiKey = apiKey config,
       req_modelName = modelName config,
       req_promptText = formatPrompt env messages,
       req_tools = toolSchemas,
       req_systemPrompt = currentSystemPrompt,
       req_temperature = temperatureOrZero (temperature config) \<rparr>"

definition runIteration ::
  "'w runner \<Rightarrow> 'w env \<Rightarrow> 'w runner_config \<Rightarrow> hooks \<Rightarrow> ('w tool \<times> agent_config) option
     \<Rightarrow> (string \<rightharpoonup> 'w registered) \<Rightarrow> tool_schema list \<Rightarrow> nat \<Rightarrow> message list \<Rightarrow> 'w st
     \<Rightarrow> 'w step" where
  "runIteration runner env config hks executingAgent toolMap toolSchemas iteration messages s =
     (case enhancePromptWithPageContext env
             (systemPrompt config @ iterationInfo iteration (maxIterations config)) (world s) of
        (currentSystemPrompt, w1) \<Rightarrow>
          (case callOpenAI env (llmRequest env config toolSchemas messages currentSystemPrompt) w1 of
             (Inl err, w2) \<Rightarrow>
               (let errorMsg = ''LLM call failed: '' @ errorText err
                in Finished
                     (Some (createErrorResult hks errorMsg
                              (messages @ [systemErrorMessage errorMsg]) R_error,
                            \<lparr> world = w2, llmCalls = Suc (llmCalls s) \<rparr>)))
           | (Inr openAIResponse, w2) \<Rightarrow>
               (let s2 = \<lparr> world = w2, llmCalls = Suc (llmCalls s) \<rparr>
                in case processAction runner env config hks executingAgent toolMap
                          openAIResponse messages s2 of
                     (messages', Completed s') \<Rightarrow> NextIteration messages' s'
                   | (messages', Returned r) \<Rightarrow> Finished r
                   | (messages', Threw err s') \<Rightarrow>
                       (let errorMsg = ''Agent loop error: '' @ errorText err
                        in Finished
                             (Some (createErrorResult hks errorMsg
                                      (messages' @ [systemErrorMessage errorMsg]) R_error,
                                    s'))))))"

text \<open>What \<open>run\<close> does once the loop has used up its iterations.\<close>

definition maxIterationsExit ::
  "'w runner \<Rightarrow> 'w env \<Rightarrow> jsval \<Rightarrow> 'w runner_config \<Rightarrow> hooks
     \<Rightarrow> ('w tool \<times> agent_config) option \<Rightarrow> message list \<Rightarrow> 'w st \<Rightarrow> 'w run_result" where
  "maxIterationsExit runner env args config hks executingAgent messages s =
     (case findHandoff (\<lambda>h. trigger h = Some T_max_iterations) executingAgent of
        Some (agent, maxIterHandoffConfig) \<Rightarrow>
          executeHandoff runner env messages args maxIterHandoffConfig agent
            (apiKey config) (modelName config) (maxIterations config)
            (temperatureOrZero (temperature config))
            (createSuccessResult hks) (createErrorResult hks) None s
      | None \<Rightarrow>
          Some (createErrorResult hks
                  (''Agent reached maximum iterations ('' @ showNat (maxIterations config) @ '')'')
                  messages R_max_iterations,
                s))"

text \<open>The \<open>for\<close> loop, from a given iteration on.\<close>

function runLoop ::
  "'w runner \<Rightarrow> 'w env \<Rightarrow> jsval \<Rightarrow> 'w runner_config \<Rightarrow> hooks
     \<Rightarrow> ('w tool \<times> agent_config) option \<Rightarrow> (string \<rightharpoonup> 'w registered) \<Rightarrow> tool_schema list
     \<Rightarrow> nat \<Rightarrow> message list \<Rightarrow> 'w st \<Rightarrow> 'w run_result" where
  "runLoop runner env args config hks executingAgent toolMap toolSchemas iteration messages s =
     (if iteration < maxIterations config then
        (case runIteration runner env config hks executingAgent toolMap toolSchemas
                iteration messages s of
           NextIteration messages' s' \<Rightarrow>
             runLoop runner env args config hks executingAgent toolMap toolSchemas
               (Suc iteration) messages' s'
         | Finished r \<Rightarrow> r)
      else maxIterationsExit runner env args config hks executingAgent messages s)"
  by pat_completeness auto
termination
  by (relation "measure (\<lambda>(runner, env, args, config, hks, executingAgent, toolMap,
                           toolSchemas, iteration, messages, s).
                          maxIterations config - iteration)") auto

declare runLoop.simps [simp del]

text \<open>\<open>run\<close>, with the recursive call that \<open>executeHandoff\<close> makes as a parameter.\<close>

definition runWith ::
  "'w runner \<Rightarrow> 'w env \<Rightarrow> message list \<Rightarrow> jsval \<Rightarrow> 'w runner_config \<Rightarrow> hooks
     \<Rightarrow> ('w tool \<times> agent_config) option \<Rightarrow> 'w st \<Rightarrow> 'w run_result" where
  "runWith runner env initialMessages args config hks executingAgent s =
     (let messages = (case prepareInitialMessages hks of
                        None \<Rightarrow> initialMessages
                      | Some prepare \<Rightarrow> prepare initialMessages)
      in case buildTools env config executingAgent of
           (toolSchemas, toolMap) \<Rightarrow>
             runLoop runner env args config hks executingAgent toolMap toolSchemas
               0 messages s)"

text \<open>
  \<open>AgentRunner.run\<close>. A chain of handoffs has no bound in the source (an agent may
  hand off to itself for ever), so the number of nested handoffs is limited by the
  first argument: \<open>None\<close> means that the chain is longer than that. A run that makes
  no handoff returns its result with any limit, also with \<open>0\<close>.
\<close>

definition noRunner :: "'w runner" where
  "noRunner initialMessages args config hks executingAgent s = None"

fun run ::
  "nat \<Rightarrow> 'w env \<Rightarrow> message list \<Rightarrow> jsval \<Rightarrow> 'w runner_config \<Rightarrow> hooks
     \<Rightarrow> ('w tool \<times> agent_config) option \<Rightarrow> 'w st \<Rightarrow> 'w run_result" where
  "run 0 env = runWith noRunner env"
| "run (Suc depth) env = runWith (run depth env) env"

section \<open>The graph engine\<close>

text \<open>
  What the builder puts into a graph under a node name. \<open>createAgentNode\<close>,
  \<open>createFinalNode\<close> and \<open>createToolExecutorNode\<close> are functions of \<open>Graph\<close>; a node
  made by one of them is kept as the call that made it. Two nodes are written out in
  the builder: each returns the state with an error text set. The last two are no
  runnables: the model object and a string, which the builder registers when the
  node type is a name that the factory table inherits (see \<open>nodeFactories\<close>).
\<close>

datatype 's runnable =
    AgentNode
  | FinalNode
  | ToolExecutorPlaceholder string
  | UnknownTypeNode string string
  | ToolExecutorNode 's
  | TheModel
  | StringValue string

fun inlineNodeError :: "'s runnable \<Rightarrow> string option" where
  "inlineNodeError (ToolExecutorPlaceholder nodeName) =
     Some (''ToolExecutor '' @ nodeName @ '' not properly initialized.'')"
| "inlineNodeError (UnknownTypeNode nodeType nodeName) =
     Some (''Unknown node type '' @ nodeType @ '' for '' @ nodeName)"
| "inlineNodeError node = None"

record graph_node_config =
  node_name :: string
  node_type :: string

record graph_edge_config =
  edge_source :: string
  conditionType :: string
  targetMap :: "(string \<times> string) list"

record graph_config =
  graph_name :: string
  entryPoint :: string
  nodes :: "graph_node_config list"
  edges :: "graph_edge_config list"

text \<open>
  Modelled from the spec: the class \<open>StateGraph\<close>, which is not among the sources.
  \<open>addNode\<close> registers a node by name (a node of the same name is replaced),
  \<open>addConditionalEdges\<close> registers the conditional edge of a source node,
  \<open>setEntryPoint\<close> designates the first node to run, and \<open>compile\<close> fails when the
  graph has no node or no valid entry point. A conditional edge is kept as the edge
  configuration that its router and its target map are made from.
\<close>

record 's state_graph =
  sg_name :: string
  sg_nodes :: "(string \<times> 's runnable) list"
  sg_conditionalEdges :: "(string \<times> graph_edge_config) list"
  sg_entryPoint :: "string option"

record 's compiled_graph =
  cg_entryPoint :: string
  cg_nodes :: "(string \<times> 's runnable) list"
  cg_conditionalEdges :: "(string \<times> graph_edge_config) list"

datatype compile_fault = NoNodes | NoValidEntryPoint

text \<open>Modelled from the spec: a new graph has no node, no edge and no entry point.\<close>

definition newStateGraph :: "string \<Rightarrow> 's state_graph" where
  "newStateGraph n =
     \<lparr> sg_name = n, sg_nodes = [], sg_conditionalEdges = [], sg_entryPoint = None \<rparr>"

text \<open>Modelled from the spec: \<open>addNode(name, runnable)\<close> registers a node. A second
  registration of a name replaces the first: the builder's placeholder for a tool
  executor is there to be replaced by the router, which logs that it is
  \<open>creating/updating\<close> the node.\<close>

definition addNode :: "string \<Rightarrow> 's runnable \<Rightarrow> 's state_graph \<Rightarrow> 's state_graph" where
  "addNode n node g = g \<lparr> sg_nodes := AList.update n node (sg_nodes g) \<rparr>"

text \<open>Modelled from the spec: \<open>addConditionalEdges(source, routerFn, targetMap)\<close>
  registers the conditional edge that is consulted after the source node has run.\<close>

definition addConditionalEdges ::
  "string \<Rightarrow> graph_edge_config \<Rightarrow> 's state_graph \<Rightarrow> 's state_graph" where
  "addConditionalEdges src edgeConfig g =
     g \<lparr> sg_conditionalEdges := AList.update src edgeConfig (sg_conditionalEdges g) \<rparr>"

text \<open>Modelled from the spec: \<open>setEntryPoint(name)\<close> designates the first node to run.\<close>

definition setEntryPoint :: "string \<Rightarrow> 's state_graph \<Rightarrow> 's state_graph" where
  "setEntryPoint n g = g \<lparr> sg_entryPoint := Some n \<rparr>"

text \<open>Modelled from the spec: \<open>compile()\<close> freezes the nodes and edges; compiling
  without a valid entry point, or with zero nodes, is a fatal configuration error.\<close>

definition compile :: "'s state_graph \<Rightarrow> compile_fault + 's compiled_graph" where
  "compile g =
     (if sg_nodes g = [] then Inl NoNodes
      else (case sg_entryPoint g of
              None \<Rightarrow> Inl NoValidEntryPoint
            | Some e \<Rightarrow>
                if map_of (sg_nodes g) e = None then Inl NoValidEntryPoint
                else Inr \<lparr> cg_entryPoint = e, cg_nodes = sg_nodes g,
                           cg_conditionalEdges = sg_conditionalEdges g \<rparr>))"

section \<open>The configurable graph builder: \<open>createAgentGraphFromConfig\<close>\<close>

datatype log_level = LOG | WARN | ERROR

type_synonym console = "(log_level \<times> string) list"

text \<open>
  The two tables of the builder are plain object literals, and \<open>table[name]\<close> also
  finds the names that every object inherits from \<open>Object.prototype\<close>.
\<close>

definition objectPrototypeNames :: "string list" where
  "objectPrototypeNames =
     [''constructor'', ''__defineGetter__'', ''__defineSetter__'', ''hasOwnProperty'',
      ''__lookupGetter__'', ''__lookupSetter__'', ''isPrototypeOf'',
      ''propertyIsEnumerable'', ''toString'', ''valueOf'', ''__proto__'',
      ''toLocaleString'']"

text \<open>
  \<open>nodeFactories[nodeConfig.type]\<close>, and what the call
  \<open>factory(openAiModel, nodeConfig, graph)\<close> gives: a node, or \<open>None\<close> when the call
  raises a \<open>TypeError\<close>. The table has three keys of its own. Of the inherited
  names, \<open>constructor\<close> is \<open>Object\<close>, which returns the model object it is given;
  \<open>toString\<close>, called without a receiver in a module (strict code), returns the string
  \<open>[object Undefined]\<close>; \<open>__proto__\<close> is an object and not a function; each of the
  others needs a receiver and raises a \<open>TypeError\<close> without one.
\<close>

definition nodeFactories :: "string \<Rightarrow> (graph_node_config \<Rightarrow> 's runnable option) option" where
  "nodeFactories t =
     (if t = ''agent'' then Some (\<lambda>nodeCfg. Some AgentNode)
      else if t = ''final'' then Some (\<lambda>nodeCfg. Some FinalNode)
      else if t = ''toolExecutor''
      then Some (\<lambda>nodeCfg. Some (ToolExecutorPlaceholder (node_name nodeCfg)))
      else if t = ''constructor'' then Some (\<lambda>nodeCfg. Some TheModel)
      else if t = ''toString'' then Some (\<lambda>nodeCfg. Some (StringValue ''[object Undefined]''))
      else if t \<in> set objectPrototypeNames then Some (\<lambda>nodeCfg. None)
      else None)"

text \<open>
  How the builder ends when it does not return a compiled graph: with the \<open>Error\<close>
  that it throws itself, with the \<open>TypeError\<close> raised by the call of the factory
  found for a node type, or with the failure of \<open>compile\<close>.
\<close>

datatype graph_fault =
    Thrown js_error
  | FactoryCallFailed string
  | CompileFailed compile_fault

text \<open>The loop over \<open>config.nodes\<close>, which a failing factory call leaves.\<close>

fun addConfiguredNodes ::
  "graph_node_config list \<Rightarrow> console \<times> 's state_graph
     \<Rightarrow> console \<times> (graph_fault + 's state_graph)" where
  "addConfiguredNodes [] (out, graph) = (out, Inr graph)"
| "addConfiguredNodes (nodeConfig # rest) (out, graph) =
     (case nodeFactories (node_type nodeConfig) of
        Some factory \<Rightarrow>
          (case factory nodeConfig of
             None \<Rightarrow> (out, Inl (FactoryCallFailed (node_type nodeConfig)))
           | Some nodeInstance \<Rightarrow>
               addConfiguredNodes rest
                 (out @ [(LOG, ''[ConfigurableGraph] Added node: '' @ node_name nodeConfig
                               @ '' (type: '' @ node_type nodeConfig @ '')'')],
                  addNode (node_name nodeConfig) nodeInstance graph))
      | None \<Rightarrow>
          addConfiguredNodes rest
            (out @ [(WARN, ''[ConfigurableGraph] Unknown node type: '' @ node_type nodeConfig
                           @ '' for node '' @ node_name nodeConfig
                           @ ''. Adding a dummy error node.'')],
             addNode (node_name nodeConfig)
               (UnknownTypeNode (node_type nodeConfig) (node_name nodeConfig)) graph))"

text \<open>
  The routers. \<open>routeNextNode\<close> (of \<open>Graph\<close>) and the two names
  \<open>NodeType.AGENT.toString()\<close> and \<open>NodeType.TOOL_EXECUTOR.toString()\<close> (of \<open>Types\<close>)
  are not among the sources and are taken as given.
\<close>

record 's routing =
  routeNextNode :: "'s \<Rightarrow> string"
  AGENT :: string
  TOOL_EXECUTOR :: string

text \<open>
  What a call of a router gives: the console output, the routing key and the graph
  instance (which the router may have added a node to); or the state object itself,
  which is no key; or a \<open>TypeError\<close>. The last two arise only from the names that the
  table of conditions inherits.
\<close>

datatype 's routed =
    Routed console string "'s state_graph"
  | RoutedState
  | RouterFailed

text \<open>The condition \<open>routeOrPrepareToolExecutor\<close>.\<close>

definition routeOrPrepareToolExecutor ::
  "'s routing \<Rightarrow> 's \<Rightarrow> 's state_graph \<Rightarrow> graph_edge_config \<Rightarrow> 's routed" where
  "routeOrPrepareToolExecutor rt state graphInstance edgeConfig =
     (let routingKey = routeNextNode rt state
      in if routingKey = TOOL_EXECUTOR rt then
           (case map_of (targetMap edgeConfig) (TOOL_EXECUTOR rt) of
              Some toolExecutorNodeName \<Rightarrow>
                if toolExecutorNodeName \<noteq> [] \<and> toolExecutorNodeName \<noteq> ''__end__''
                then Routed
                       [(LOG, ''[ConfigurableGraph Cond] Dynamically creating/updating tool executor: ''
                              @ toolExecutorNodeName)]
                       routingKey
                       (addNode toolExecutorNodeName (ToolExecutorNode state) graphInstance)
                else Routed
                       [(ERROR, ''[ConfigurableGraph Cond] Tool executor node name not found in targetMap or is __end__. Routing to __end__.'')]
                       ''__end__'' graphInstance
            | None \<Rightarrow>
                Routed
                  [(ERROR, ''[ConfigurableGraph Cond] Tool executor node name not found in targetMap or is __end__. Routing to __end__.'')]
                  ''__end__'' graphInstance)
         else Routed [] routingKey graphInstance)"

text \<open>
  \<open>conditionFactories[edgeConfig.conditionType]\<close>: three keys of its own, and the
  inherited names with what their call
  \<open>conditionFactory(state, graph, edgeConfig, openAiModel)\<close> gives.
\<close>

definition conditionFactories ::
  "'s routing \<Rightarrow> string \<Rightarrow> ('s \<Rightarrow> 's state_graph \<Rightarrow> graph_edge_config \<Rightarrow> 's routed) option"
  where
  "conditionFactories rt t =
     (if t = ''routeBasedOnLastMessage''
      then Some (\<lambda>state graphInstance edgeConfig. Routed [] (routeNextNode rt state) graphInstance)
      else if t = ''alwaysAgent''
      then Some (\<lambda>state graphInstance edgeConfig. Routed [] (AGENT rt) graphInstance)
      else if t = ''routeOrPrepareToolExecutor''
      then Some (routeOrPrepareToolExecutor rt)
      else if t = ''constructor''
      then Some (\<lambda>state graphInstance edgeConfig. RoutedState)
      else if t = ''toString''
      then Some (\<lambda>state graphInstance edgeConfig. Routed [] ''[object Undefined]'' graphInstance)
      else if t \<in> set objectPrototypeNames
      then Some (\<lambda>state graphInstance edgeConfig. RouterFailed)
      else None)"

text \<open>The loop over \<open>config.edges\<close>.\<close>

fun addConfiguredEdges ::
  "'s routing \<Rightarrow> graph_edge_config list \<Rightarrow> console \<times> 's state_graph
     \<Rightarrow> console \<times> 's state_graph" where
  "addConfiguredEdges rt [] acc = acc"
| "addConfiguredEdges rt (edgeConfig # rest) (out, graph) =
     (case conditionFactories rt (conditionType edgeConfig) of
        Some conditionFactory \<Rightarrow>
          addConfiguredEdges rt rest
            (out @ [(LOG, ''[ConfigurableGraph] Added edge from '' @ edge_source edgeConfig
                          @ '' via '' @ conditionType edgeConfig)],
             addConditionalEdges (edge_source edgeConfig) edgeConfig graph)
      | None \<Rightarrow>
          addConfiguredEdges rt rest
            (out @ [(WARN, ''[ConfigurableGraph] Unknown condition type: ''
                           @ conditionType edgeConfig @ '' for edge from ''
                           @ edge_source edgeConfig)],
             graph))"

definition compileGraph :: "'s state_graph \<Rightarrow> graph_fault + 's compiled_graph" where
  "compileGraph g = (case compile g of Inl f \<Rightarrow> Inl (CompileFailed f) | Inr c \<Rightarrow> Inr c)"

definition createAgentGraphFromConfig ::
  "'s routing \<Rightarrow> graph_config \<Rightarrow> console \<times> (graph_fault + 's compiled_graph)" where
  "createAgentGraphFromConfig rt config =
     (case addConfiguredNodes (nodes config)
             ([(LOG, ''[ConfigurableGraph] Creating graph from config: '' @ graph_name config)],
              newStateGraph (graph_name config)) of
        (out0, Inl fault) \<Rightarrow> (out0, Inl fault)
      | (out0, Inr graph0) \<Rightarrow>
          (case addConfiguredEdges rt (edges config) (out0, graph0) of
             (out, graph) \<Rightarrow>
               (case find (\<lambda>n. node_name n = entryPoint config) (nodes config) of
                  Some n \<Rightarrow>
                    (out @ [(LOG, ''[ConfigurableGraph] Set entry point to: ''
                                  @ entryPoint config)],
                     compileGraph (setEntryPoint (entryPoint config) graph))
                | None \<Rightarrow>
                    (case nodes config of
                       firstNode # rest \<Rightarrow>
                         (out @ [(ERROR, ''[ConfigurableGraph] Entry point \"''
                                         @ entryPoint config
                                         @ ''\" not found in defined nodes.''),
                                 (WARN, ''[ConfigurableGraph] Setting entry point to fallback: ''
                                        @ node_name firstNode)],
                          compileGraph (setEntryPoint (node_name firstNode) graph))
                     | [] \<Rightarrow>
                         (out @ [(ERROR, ''[ConfigurableGraph] Entry point \"''
                                         @ entryPoint config
                                         @ ''\" not found in defined nodes.'')],
                          Inl (Thrown (Error ''[ConfigurableGraph] No nodes defined in graph config, cannot set entry point.'')))))))"

section \<open>A run of the graph\<close>

text \<open>
  Modelled from the spec: what the nodes do. The agent node, the final node and the
  tool-executor node are made by functions of \<open>Graph\<close>, which is not among the
  sources: a node receives a state and returns a state. The two nodes that the builder
  writes out return the state with an error text set, which \<open>withError\<close> stands for.
\<close>

record 's node_meaning =
  invokeAgent :: "'s \<Rightarrow> 's"
  invokeFinal :: "'s \<Rightarrow> 's"
  invokeToolExecutor :: "'s \<Rightarrow> 's \<Rightarrow> 's"
  withError :: "string \<Rightarrow> 's \<Rightarrow> 's"

text \<open>\<open>node.invoke(state)\<close>; the model object and a string have no \<open>invoke\<close>.\<close>

fun invokeNode :: "'s node_meaning \<Rightarrow> 's runnable \<Rightarrow> 's \<Rightarrow> 's option" where
  "invokeNode nm AgentNode state = Some (invokeAgent nm state)"
| "invokeNode nm FinalNode state = Some (invokeFinal nm state)"
| "invokeNode nm (ToolExecutorNode created) state = Some (invokeToolExecutor nm created state)"
| "invokeNode nm (ToolExecutorPlaceholder nodeName) state =
     Some (withError nm (''ToolExecutor '' @ nodeName @ '' not properly initialized.'') state)"
| "invokeNode nm (UnknownTypeNode nodeType nodeName) state =
     Some (withError nm (''Unknown node type '' @ nodeType @ '' for '' @ nodeName) state)"
| "invokeNode nm TheModel state = None"
| "invokeNode nm (StringValue str) state = None"

text \<open>
  The router of a conditional edge, as the builder makes it:
  \<open>(state) => conditionFactory(state, graph, edgeConfig, openAiModel)\<close>.
\<close>

definition conditionFn ::
  "'s routing \<Rightarrow> graph_edge_config \<Rightarrow> 's \<Rightarrow> 's state_graph \<Rightarrow> 's routed option" where
  "conditionFn rt edgeConfig state graphInstance =
     (case conditionFactories rt (conditionType edgeConfig) of
        None \<Rightarrow> None
      | Some conditionFactory \<Rightarrow> Some (conditionFactory state graphInstance edgeConfig))"

datatype run_end = Terminated | RoutingFailed string

text \<open>
  Modelled from the spec: the run of a graph from a node, with the states it yields
  and how it ends. After a node has run its state is yielded, and the conditional
  edge of the node is consulted: its router is called with the current state to
  obtain a key. The terminal key \<open>__end__\<close> halts the run, and so does a key that the
  target map sends to \<open>__end__\<close>; another key moves the run to the node that the target
  map gives for it; a key that is not in the target map makes the run fail. The spec
  sets no limit to the length of a run, and says nothing of a node that has no
  outgoing edge or of a router that fails: the relation has no rule for these.
\<close>

inductive graphRun ::
  "'s routing \<Rightarrow> 's node_meaning \<Rightarrow> 's state_graph \<Rightarrow> string \<Rightarrow> 's \<Rightarrow> 's list \<Rightarrow> run_end \<Rightarrow> bool"
  for rt :: "'s routing" and nm :: "'s node_meaning" where
  halt:
    "map_of (sg_nodes graph) current = Some node \<Longrightarrow>
     invokeNode nm node state = Some state' \<Longrightarrow>
     map_of (sg_conditionalEdges graph) current = Some edgeConfig \<Longrightarrow>
     conditionFn rt edgeConfig state' graph = Some (Routed out ''__end__'' graph') \<Longrightarrow>
     graphRun rt nm graph current state [state'] Terminated"
| haltAtTarget:
    "map_of (sg_nodes graph) current = Some node \<Longrightarrow>
     invokeNode nm node state = Some state' \<Longrightarrow>
     map_of (sg_conditionalEdges graph) current = Some edgeConfig \<Longrightarrow>
     conditionFn rt edgeConfig state' graph = Some (Routed out key graph') \<Longrightarrow>
     key \<noteq> ''__end__'' \<Longrightarrow>
     map_of (targetMap edgeConfig) key = Some ''__end__'' \<Longrightarrow>
     graphRun rt nm graph current state [state'] Terminated"
| move:
    "map_of (sg_nodes graph) current = Some node \<Longrightarrow>
     invokeNode nm node state = Some state' \<Longrightarrow>
     map_of (sg_conditionalEdges graph) current = Some edgeConfig \<Longrightarrow>
     conditionFn rt edgeConfig state' graph = Some (Routed out key graph') \<Longrightarrow>
     key \<noteq> ''__end__'' \<Longrightarrow>
     map_of (targetMap edgeConfig) key = Some target \<Longrightarrow>
     target \<noteq> ''__end__'' \<Longrightarrow>
     graphRun rt nm graph' target state' states ending \<Longrightarrow>
     graphRun rt nm graph current state (state' # states) ending"
| unresolved:
    "map_of (sg_nodes graph) current = Some node \<Longrightarrow>
     invokeNode nm node state = Some state' \<Longrightarrow>
     map_of (sg_conditionalEdges graph) current = Some edgeConfig \<Longrightarrow>
     conditionFn rt edgeConfig state' graph = Some (Routed out key graph') \<Longrightarrow>
     key \<noteq> ''__end__'' \<Longrightarrow>
     map_of (targetMap edgeConfig) key = None \<Longrightarrow>
     graphRun rt nm graph current state [state'] (RoutingFailed key)"

section \<open>The transferred history, in the words of the specification\<close>

text \<open>
  The specification describes the history handed to the target agent, when an
  allow-list of tool names is given, as the first user message of the source history
  followed by the tool-result messages that are not errors and whose tool name is in
  the allow-list, in their original order. These two definitions follow those words;
  \<open>handoffMessages\<close> above follows the source.
\<close>

definition isCarriedResult :: "string list \<Rightarrow> message \<Rightarrow> bool" where
  "isCarriedResult allow m =
     (case m of
        TOOL_RESULT tr \<Rightarrow> \<not> tr_isError tr \<and> tr_toolName tr \<in> set allow
      | _ \<Rightarrow> False)"

definition transferredHistory :: "string list \<Rightarrow> message list \<Rightarrow> message list" where
  "transferredHistory allow history =
     (case find isUserMessage history of None \<Rightarrow> [] | Some u \<Rightarrow> [u])
     @ filter (isCarriedResult allow) history"


section \<open>The ways in which a run ends\<close>


section \<open>A scripted world for concrete runs\<close>

text \<open>
  The world is the list of responses the LLM will still give; with none left, the
  call fails. A response is an object with a \<open>tool\<close> name and \<open>args\<close>, or with a
  \<open>text\<close>.
\<close>

definition carrySuccess :: result_hook where
  "carrySuccess out steps r =
     \<lparr> success = True, res_output = Some out, res_error = None,
       intermediateSteps = Some steps, terminationReason = Some r \<rparr>"

definition carryError :: result_hook where
  "carryError err steps r =
     \<lparr> success = False, res_output = None, res_error = Some err,
       intermediateSteps = Some steps, terminationReason = Some r \<rparr>"

definition demoHooks :: hooks where
  "demoHooks =
     \<lparr> prepareInitialMessages = None,
       createSuccessResult = carrySuccess,
       createErrorResult = carryError \<rparr>"

definition scriptedLLM :: "llm_request \<Rightarrow> jsval list \<Rightarrow> (js_error + jsval) \<times> jsval list" where
  "scriptedLLM req w =
     (case w of [] \<Rightarrow> (Inl (Error ''network down''), []) | r # rs \<Rightarrow> (Inr r, rs))"

definition demoParse :: "jsval \<Rightarrow> parsed_action" where
  "demoParse r =
     (case getProp r ''tool'' of
        JStr n \<Rightarrow> ToolCall n (getProp r ''args'')
      | _ \<Rightarrow> (case getProp r ''text'' of
                 JStr a \<Rightarrow> FinalAnswer a
               | _ \<Rightarrow> ActionError ''LLM returned empty response.''))"

definition callOf :: "string \<Rightarrow> jsval" where
  "callOf n = JObj [(''tool'', JStr n), (''args'', JObj [])]"

definition answerOf :: "string \<Rightarrow> jsval" where
  "answerOf a = JObj [(''text'', JStr a)]"

definition echoTool :: "jsval list tool" where
  "echoTool =
     \<lparr> tool_name = ''echo'', tool_description = ''returns its arguments'',
       tool_schema = JObj [], execute = (\<lambda>a w. (Inr a, w)) \<rparr>"

definition boomTool :: "jsval list tool" where
  "boomTool =
     \<lparr> tool_name = ''boom'', tool_description = ''always throws an Error'',
       tool_schema = JObj [], execute = (\<lambda>a w. (Inl (JError ''Error'' ''boom''), w)) \<rparr>"

definition nullTool :: "jsval list tool" where
  "nullTool =
     \<lparr> tool_name = ''nuller'', tool_description = ''always throws null'',
       tool_schema = JObj [], execute = (\<lambda>a w. (Inl JNull, w)) \<rparr>"

definition softFailTool :: "jsval list tool" where
  "softFailTool =
     \<lparr> tool_name = ''soft'', tool_description = ''returns an empty error field'',
       tool_schema = JObj [],
       execute = (\<lambda>a w. (Inr (JObj [(''error'', JStr [])]), w)) \<rparr>"

definition writerConfig :: agent_config where
  "writerConfig =
     \<lparr> cfg_systemPrompt = ''You write.'', cfg_tools = [''echo''], cfg_handoffs = None,
       cfg_maxIterations = Some 1, cfg_modelName = None, cfg_temperature = None,
       cfg_includeIntermediateStepsOnReturn = None,
       cfg_createSuccessResult = None, cfg_createErrorResult = None \<rparr>"

definition writerTool :: "jsval list tool" where
  "writerTool =
     \<lparr> tool_name = ''writer'', tool_description = ''writes the report'',
       tool_schema = JObj [], execute = (\<lambda>a w. (Inr (JStr ''written''), w)) \<rparr>"

definition refuseTool :: "jsval list tool" where
  "refuseTool =
     \<lparr> tool_name = ''refuse'', tool_description = ''reports a failure without throwing'',
       tool_schema = JObj [],
       execute = (\<lambda>a w. (Inr (JObj [(''success'', JBool False),
                                       (''message'', JStr ''denied'')]), w)) \<rparr>"

text \<open>A second agent, which returns its steps together with those before the handoff.\<close>

definition reviewerConfig :: agent_config where
  "reviewerConfig =
     \<lparr> cfg_systemPrompt = ''You review.'', cfg_tools = [''echo''], cfg_handoffs = None,
       cfg_maxIterations = Some 1, cfg_modelName = None, cfg_temperature = None,
       cfg_includeIntermediateStepsOnReturn = Some True,
       cfg_createSuccessResult = None, cfg_createErrorResult = None \<rparr>"

definition reviewerTool :: "jsval list tool" where
  "reviewerTool =
     \<lparr> tool_name = ''reviewer'', tool_description = ''reviews the report'',
       tool_schema = JObj [], execute = (\<lambda>a w. (Inr (JStr ''reviewed''), w)) \<rparr>"

text \<open>The agent that runs: it hands off to the writer when its iterations are used
  up, and may call the reviewer with the results of \<open>echo\<close>.\<close>

definition researcherConfig :: agent_config where
  "researcherConfig =
     \<lparr> cfg_systemPrompt = ''You research.'', cfg_tools = [''echo''],
       cfg_handoffs =
         Some [\<lparr> targetAgentName = ''writer'', trigger = Some T_max_iterations,
                  includeToolResults = None \<rparr>,
               \<lparr> targetAgentName = ''reviewer'', trigger = None,
                  includeToolResults = Some [''echo''] \<rparr>],
       cfg_maxIterations = Some 1, cfg_modelName = None, cfg_temperature = None,
       cfg_includeIntermediateStepsOnReturn = None,
       cfg_createSuccessResult = None, cfg_createErrorResult = None \<rparr>"

definition researcherTool :: "jsval list tool" where
  "researcherTool =
     \<lparr> tool_name = ''researcher'', tool_description = ''researches'',
       tool_schema = JObj [], execute = (\<lambda>a w. (Inr (JStr ''researched''), w)) \<rparr>"

definition demoRegistry :: "string \<Rightarrow> jsval list registered option" where
  "demoRegistry n =
     (if n = ''echo'' then Some (PlainTool echoTool)
      else if n = ''boom'' then Some (PlainTool boomTool)
      else if n = ''nuller'' then Some (PlainTool nullTool)
      else if n = ''soft'' then Some (PlainTool softFailTool)
      else if n = ''refuse'' then Some (PlainTool refuseTool)
      else if n = ''writer'' then Some (ConfigurableAgentTool writerTool writerConfig)
      else if n = ''reviewer'' then Some (ConfigurableAgentTool reviewerTool reviewerConfig)
      else None)"

text \<open>\<open>JSON.stringify(v, null, 2)\<close> on the values that tools return in these runs.\<close>

definition emptyErrorJson :: string where
  "emptyErrorJson =
     ''{'' @ [CHR 0x0A] @ ''  '' @ [CHR 0x22] @ ''error'' @ [CHR 0x22] @ '': ''
     @ [CHR 0x22, CHR 0x22] @ [CHR 0x0A] @ ''}''"

definition demoStringify :: "jsval \<Rightarrow> jsval" where
  "demoStringify v =
     (if v = JObj [] then JStr ''{}''
      else if v = JObj [(''error'', JStr [])] then JStr emptyErrorJson
      else if v = JNull then JStr ''null''
      else JUndefined)"

definition demoJson :: "jsval \<Rightarrow> jsval + jsval" where
  "demoJson v = Inr (demoStringify v)"

definition demoEnv :: "jsval list env" where
  "demoEnv =
     \<lparr> callOpenAI = scriptedLLM,
       parseOpenAIResponse = demoParse,
       enhancePromptWithPageContext = (\<lambda>p w. (p, w)),
       formatPrompt = (\<lambda>ms. []),
       getRegisteredTool = demoRegistry,
       jsonStringify = demoJson \<rparr>"

definition demoConfig :: "nat \<Rightarrow> jsval list runner_config" where
  "demoConfig n =
     \<lparr> apiKey = ''key'', modelName = ''model'', systemPrompt = ''You research.'',
       tools = [PlainTool echoTool, PlainTool boomTool, PlainTool softFailTool,
                PlainTool refuseTool, PlainTool nullTool],
       maxIterations = n, temperature = None \<rparr>"

definition userHello :: message where
  "userHello = USER \<lparr> um_text = ''hello'', um_image = None \<rparr>"

text \<open>A stand-in for the target's run that answers at once and returns the messages
  it was given.\<close>

definition probeRunner :: "jsval list runner" where
  "probeRunner initialMessages args config hks executingAgent s =
     Some (createSuccessResult hks ''ok'' initialMessages R_final_answer, s)"

definition toolResultOk :: "string \<Rightarrow> string \<Rightarrow> message" where
  "toolResultOk n txt =
     TOOL_RESULT \<lparr> tr_toolName = n, tr_resultText = JStr txt, tr_isError = False,
                   tr_error = None, tr_resultData = Some (JStr txt) \<rparr>"

text \<open>The messages of these runs, written out.\<close>

definition modelCall :: "string \<Rightarrow> message" where
  "modelCall n =
     MODEL \<lparr> mm_action = ''tool'', mm_toolName = Some n, mm_toolArgs = Some (JObj []),
             mm_answer = None, mm_isFinalAnswer = False, mm_reasoning = JUndefined \<rparr>"

definition modelFinal :: "string \<Rightarrow> message" where
  "modelFinal a =
     MODEL \<lparr> mm_action = ''final'', mm_toolName = None, mm_toolArgs = None,
             mm_answer = Some a, mm_isFinalAnswer = True, mm_reasoning = JUndefined \<rparr>"

definition systemError :: "string \<Rightarrow> message" where
  "systemError txt =
     TOOL_RESULT \<lparr> tr_toolName = ''system_error'', tr_resultText = JStr txt,
                   tr_isError = True, tr_error = Some (JStr txt), tr_resultData = None \<rparr>"

definition echoResult :: message where
  "echoResult =
     TOOL_RESULT \<lparr> tr_toolName = ''echo'', tr_resultText = JStr ''{}'', tr_isError = False,
                   tr_error = None, tr_resultData = Some (JObj []) \<rparr>"


section \<open>A small graph configuration\<close>

text \<open>A state is the list of the names still to be routed to; a node takes the first
  of them away.\<close>

definition demoRouting :: "string list routing" where
  "demoRouting =
     \<lparr> routeNextNode = (\<lambda>state. case state of [] \<Rightarrow> ''final'' | k # ks \<Rightarrow> k),
       AGENT = ''agent'',
       TOOL_EXECUTOR = ''tool_executor'' \<rparr>"

definition demoMeaning :: "string list node_meaning" where
  "demoMeaning =
     \<lparr> invokeAgent = tl, invokeFinal = tl, invokeToolExecutor = (\<lambda>created. tl),
       withError = (\<lambda>msg state. state) \<rparr>"

definition demoEdge :: "string \<Rightarrow> graph_edge_config" where
  "demoEdge target =
     \<lparr> edge_source = ''agent'', conditionType = ''routeOrPrepareToolExecutor'',
       targetMap = [(''agent'', ''agent''), (''tool_executor'', target),
                    (''final'', ''final'')] \<rparr>"

definition demoGraphConfig :: "graph_node_config list \<Rightarrow> graph_config" where
  "demoGraphConfig ns =
     \<lparr> graph_name = ''demo'', entryPoint = ''start'', nodes = ns,
       edges = [demoEdge ''tools''] \<rparr>"

definition demoNodes :: "graph_node_config list" where
  "demoNodes =
     [\<lparr> node_name = ''agent'', node_type = ''agent'' \<rparr>,
      \<lparr> node_name = ''tools'', node_type = ''toolExecutor'' \<rparr>,
      \<lparr> node_name = ''final'', node_type = ''final'' \<rparr>]"

definition demoGraph :: "string \<Rightarrow> string list state_graph" where
  "demoGraph target =
     \<lparr> sg_name = ''demo'',
       sg_nodes = [(''agent'', AgentNode), (''tools'', ToolExecutorPlaceholder ''tools'')],
       sg_conditionalEdges = [(''agent'', demoEdge target)],
       sg_entryPoint = Some ''agent'' \<rparr>"

section \<open>Unfolding the loop\<close>

lemma runLoop_step:
  "iteration < maxIterations config \<Longrightarrow>
   runLoop runner env args config hks executingAgent toolMap toolSchemas iteration messages s =
     (case runIteration runner env config hks executingAgent toolMap toolSchemas
             iteration messages s of
        NextIteration messages' s' \<Rightarrow>
          runLoop runner env args config hks executingAgent toolMap toolSchemas
            (Suc iteration) messages' s'
      | Finished r \<Rightarrow> r)"
  by (subst runLoop.simps) simp

lemma runLoop_exit:
  "\<not> iteration < maxIterations config \<Longrightarrow>
   runLoop runner env args config hks executingAgent toolMap toolSchemas iteration messages s =
     maxIterationsExit runner env args config hks executingAgent messages s"
  by (subst runLoop.simps) simp

text \<open>A call of a tool that is in the tool map and is not a handoff tool.\<close>

lemma processAction_regular:
  assumes "parseOpenAIResponse env openAIResponse = ToolCall toolName toolArgs"
    and "toolMap toolName = Some toolToExecute"
    and "\<not> (startsWith ''handoff_to_'' toolName \<and> isConfigurableAgentTool toolToExecute)"
    and "execute (toolOf toolToExecute) toolArgs (world s) = (r, w')"
  shows "processAction runner env config hks executingAgent toolMap openAIResponse messages s
         = (case toolOutcome env r of
              Inr outcome \<Rightarrow>
                (messages @ [toolCallMessage toolName toolArgs openAIResponse,
                             toolResultMessage toolName outcome],
                 Completed (s \<lparr> world := w' \<rparr>))
            | Inl e \<Rightarrow>
                (messages @ [toolCallMessage toolName toolArgs openAIResponse],
                 Threw e (s \<lparr> world := w' \<rparr>)))"
proof -
  from assms(3)
  have "(if startsWith ''handoff_to_'' toolName \<and> isConfigurableAgentTool toolToExecute
         then a else b) = b" for a b :: "message list \<times> 'a attempt"
    by (rule if_not_P)
  with assms(1,2,4) show ?thesis
    by (simp add: processAction_def Let_def split: sum.splits)
qed

lemma runIteration_regular:
  assumes "enhancePromptWithPageContext env
             (systemPrompt config @ iterationInfo iteration (maxIterations config)) (world s)
           = (currentSystemPrompt, w1)"
    and "callOpenAI env (llmRequest env config toolSchemas messages currentSystemPrompt) w1
         = (Inr openAIResponse, w2)"
    and "parseOpenAIResponse env openAIResponse = ToolCall toolName toolArgs"
    and "toolMap toolName = Some toolToExecute"
    and "\<not> (startsWith ''handoff_to_'' toolName \<and> isConfigurableAgentTool toolToExecute)"
    and "execute (toolOf toolToExecute) toolArgs w2 = (r, w3)"
  shows "runIteration runner env config hks executingAgent toolMap toolSchemas
           iteration messages s
         = (case toolOutcome env r of
              Inr outcome \<Rightarrow>
                NextIteration
                  (messages @ [toolCallMessage toolName toolArgs openAIResponse,
                               toolResultMessage toolName outcome])
                  \<lparr> world = w3, llmCalls = Suc (llmCalls s) \<rparr>
            | Inl e \<Rightarrow>
                Finished
                  (Some (createErrorResult hks (''Agent loop error: '' @ errorText e)
                           (messages @ [toolCallMessage toolName toolArgs openAIResponse,
                                        systemErrorMessage
                                          (''Agent loop error: '' @ errorText e)])
                           R_error,
                         \<lparr> world = w3, llmCalls = Suc (llmCalls s) \<rparr>)))"
proof -
  let ?s2 = "\<lparr> world = w2, llmCalls = Suc (llmCalls s) \<rparr>"
  have "execute (toolOf toolToExecute) toolArgs (world ?s2) = (r, w3)"
    using assms(6) by simp
  from processAction_regular [where toolMap = toolMap, OF assms(3,4,5) this]
  have "processAction runner env config hks executingAgent toolMap openAIResponse messages ?s2
        = (case toolOutcome env r of
             Inr outcome \<Rightarrow>
               (messages @ [toolCallMessage toolName toolArgs openAIResponse,
                            toolResultMessage toolName outcome],
                Completed (?s2 \<lparr> world := w3 \<rparr>))
           | Inl e \<Rightarrow>
               (messages @ [toolCallMessage toolName toolArgs openAIResponse],
                Threw e (?s2 \<lparr> world := w3 \<rparr>)))" .
  with assms(1,2) show ?thesis
    by (simp add: runIteration_def Let_def split: sum.splits)
qed

lemmas demo_defs =
  runWith_def buildTools_def agentHandoffs_def findHandoff_def initialToolMap_def
  runIteration_def llmRequest_def processAction_def maxIterationsExit_def
  toolCallMessage_def finalAnswerMessage_def systemErrorMessage_def
  toolResultMessage_def toolOutcome_def toolTry_def faultText_def getProp_def
  js_or_def startsWith_def temperatureOrZero_def
  cannotReadProperty_def notAFunction_def notPrimitive_def
  executeHandoff_def handoffMessages_def finishHandoff_def targetRunnerConfig_def
  targetRunnerHooks_def orDefaultName_def orDefaultCount_def List.map_filter_def
  toolSchemaOf_def handoffToolName_def handoffToolSchema_def isLlmTrigger_def
  demoStringify_def demoJson_def demoEnv_def demoConfig_def demoHooks_def demoRegistry_def
  demoParse_def scriptedLLM_def callOf_def answerOf_def carrySuccess_def carryError_def
  echoTool_def boomTool_def nullTool_def softFailTool_def refuseTool_def
  writerTool_def writerConfig_def
  reviewerConfig_def reviewerTool_def researcherConfig_def researcherTool_def
  probeRunner_def toolResultOk_def echoResult_def userHello_def
  modelCall_def modelFinal_def systemError_def

section \<open>A failing LLM call ends the run\<close>

text \<open>
  C8. In any iteration of the loop in which the LLM call throws, the run appends one
  tool-result message, named \<open>system_error\<close>, flagged as an error and carrying the
  text of the failure, and returns at once the error result with reason \<open>error\<close>: the
  world is as that one call left it, the LLM has been called exactly once more (no
  retry), and no further iteration runs.
\<close>

theorem llm_call_failure_is_fatal:
  assumes "iteration < maxIterations config"
    and "enhancePromptWithPageContext env
           (systemPrompt config @ iterationInfo iteration (maxIterations config)) (world s)
         = (currentSystemPrompt, w1)"
    and "callOpenAI env (llmRequest env config toolSchemas messages currentSystemPrompt) w1
         = (Inl err, w2)"
  shows "runLoop runner env args config hks executingAgent toolMap toolSchemas
           iteration messages s
         = Some (createErrorResult hks (''LLM call failed: '' @ errorText err)
                   (messages
                    @ [TOOL_RESULT
                         \<lparr> tr_toolName = ''system_error'',
                           tr_resultText = JStr (''LLM call failed: '' @ errorText err),
                           tr_isError = True,
                           tr_error = Some (JStr (''LLM call failed: '' @ errorText err)),
                           tr_resultData = None \<rparr>])
                   R_error,
                 \<lparr> world = w2, llmCalls = Suc (llmCalls s) \<rparr>)"
  using assms by (simp add: runLoop_step runIteration_def systemErrorMessage_def Let_def)

theorem llm_call_failure_is_fatal_witness:
  "run 0 demoEnv [userHello] JNull (demoConfig 3) demoHooks None \<lparr> world = [], llmCalls = 0 \<rparr>
   = Some (\<lparr> success = False, res_output = None,
             res_error = Some ''LLM call failed: network down'',
             intermediateSteps =
               Some [userHello,
                     TOOL_RESULT
                       \<lparr> tr_toolName = ''system_error'',
                         tr_resultText = JStr ''LLM call failed: network down'',
                         tr_isError = True,
                         tr_error = Some (JStr ''LLM call failed: network down''),
                         tr_resultData = None \<rparr>],
             terminationReason = Some R_error \<rparr>,
           \<lparr> world = [], llmCalls = 1 \<rparr>)"
proof -
  have lt: "0 < maxIterations (demoConfig 3)"
    by (simp add: demoConfig_def)
  have enh: "enhancePromptWithPageContext demoEnv
               (systemPrompt (demoConfig 3) @ iterationInfo 0 (maxIterations (demoConfig 3)))
               (world \<lparr> world = [], llmCalls = 0 \<rparr>)
             = (systemPrompt (demoConfig 3) @ iterationInfo 0 (maxIterations (demoConfig 3)), [])"
    by (simp add: demoEnv_def)
  have call: "callOpenAI demoEnv req [] = (Inl (Error ''network down''), [])" for req
    by (simp add: demoEnv_def scriptedLLM_def)
  show ?thesis
    using llm_call_failure_is_fatal [OF lt enh call]
    by (simp add: runWith_def buildTools_def agentHandoffs_def demoHooks_def carryError_def)
qed

section \<open>An unknown tool name\<close>

text \<open>
  C1, as the code has it. In any iteration in which the parsed action is a tool call
  whose name is not in the runner's tool map (the registered tools and the
  \<open>handoff_to_\<close> tools), the run appends the model message of the call and then a
  tool-result message, named \<open>system_error\<close> and flagged as an error, whose text names
  the unknown tool, and returns the error result with reason \<open>error\<close>; no fault leaves
  \<open>run\<close>, and no further iteration runs.
\<close>

theorem unknown_tool_ends_run:
  assumes "iteration < maxIterations config"
    and "enhancePromptWithPageContext env
           (systemPrompt config @ iterationInfo iteration (maxIterations config)) (world s)
         = (currentSystemPrompt, w1)"
    and "callOpenAI env (llmRequest env config toolSchemas messages currentSystemPrompt) w1
         = (Inr openAIResponse, w2)"
    and "parseOpenAIResponse env openAIResponse = ToolCall toolName toolArgs"
    and "toolMap toolName = None"
  shows "runLoop runner env args config hks executingAgent toolMap toolSchemas
           iteration messages s
         = Some (createErrorResult hks
                   (''Agent loop error: Agent requested unknown tool: '' @ toolName)
                   (messages
                    @ [MODEL
                         \<lparr> mm_action = ''tool'',
                           mm_toolName = Some toolName,
                           mm_toolArgs = Some toolArgs,
                           mm_answer = None,
                           mm_isFinalAnswer = False,
                           mm_reasoning =
                             optChain (getProp openAIResponse ''reasoning'') ''summary'' \<rparr>,
                       TOOL_RESULT
                         \<lparr> tr_toolName = ''system_error'',
                           tr_resultText =
                             JStr (''Agent loop error: Agent requested unknown tool: ''
                                   @ toolName),
                           tr_isError = True,
                           tr_error =
                             Some (JStr (''Agent loop error: Agent requested unknown tool: ''
                                         @ toolName)),
                           tr_resultData = None \<rparr>])
                   R_error,
                 \<lparr> world = w2, llmCalls = Suc (llmCalls s) \<rparr>)"
  using assms
  by (simp add: runLoop_step runIteration_def processAction_def toolCallMessage_def
                systemErrorMessage_def Let_def)

theorem unknown_tool_ends_run_witness:
  "run 0 demoEnv [userHello] JNull (demoConfig 3) demoHooks None
     \<lparr> world = [callOf ''missing'', answerOf ''never read''], llmCalls = 0 \<rparr>
   = Some (\<lparr> success = False, res_output = None,
             res_error = Some ''Agent loop error: Agent requested unknown tool: missing'',
             intermediateSteps =
               Some [userHello,
                     modelCall ''missing'',
                     systemError ''Agent loop error: Agent requested unknown tool: missing''],
             terminationReason = Some R_error \<rparr>,
           \<lparr> world = [answerOf ''never read''], llmCalls = 1 \<rparr>)"
proof -
  let ?s = "\<lparr> world = [callOf ''missing'', answerOf ''never read''], llmCalls = 0 \<rparr>"
  let ?sp = "systemPrompt (demoConfig 3) @ iterationInfo 0 (maxIterations (demoConfig 3))"
  let ?tm = "initialToolMap (tools (demoConfig 3))"
  have lt: "0 < maxIterations (demoConfig 3)"
    by (simp add: demoConfig_def)
  have enh: "enhancePromptWithPageContext demoEnv ?sp (world ?s) = (?sp, world ?s)"
    by (simp add: demoEnv_def)
  have call: "callOpenAI demoEnv req (world ?s)
              = (Inr (callOf ''missing''), [answerOf ''never read''])" for req
    by (simp add: demoEnv_def scriptedLLM_def)
  have parse: "parseOpenAIResponse demoEnv (callOf ''missing'') = ToolCall ''missing'' (JObj [])"
    by (simp add: demoEnv_def demoParse_def callOf_def getProp_def)
  have unknown: "?tm ''missing'' = None"
    by (simp add: initialToolMap_def demoConfig_def echoTool_def boomTool_def softFailTool_def
                  refuseTool_def nullTool_def)
  show ?thesis
    using unknown_tool_ends_run
            [where toolMap = ?tm and toolName = "''missing''", OF lt enh call parse unknown]
    by (simp add: runWith_def buildTools_def agentHandoffs_def demoHooks_def carryError_def
                  modelCall_def systemError_def callOf_def getProp_def)
qed

text \<open>
  The run does not go on to a second iteration: with two iterations allowed and a
  final answer waiting as the second response, the run ends after one LLM call with
  reason \<open>error\<close>, and the second response is never read.
\<close>

theorem unknown_tool_continues_counterexample:
  "maxIterations (demoConfig 2) = 2 \<and>
   run 0 demoEnv [userHello] JNull (demoConfig 2) demoHooks None
     \<lparr> world = [callOf ''nope'', answerOf ''done''], llmCalls = 0 \<rparr>
   = Some (\<lparr> success = False, res_output = None,
             res_error = Some ''Agent loop error: Agent requested unknown tool: nope'',
             intermediateSteps =
               Some [userHello,
                     modelCall ''nope'',
                     systemError ''Agent loop error: Agent requested unknown tool: nope''],
             terminationReason = Some R_error \<rparr>,
           \<lparr> world = [answerOf ''done''], llmCalls = 1 \<rparr>)"
  by (simp add: demo_defs runLoop_step Let_def)

section \<open>A tool that throws\<close>

text \<open>
  A fault of a tool from which the inner \<open>catch\<close> can make its text (any thrown value
  but \<open>null\<close> and \<open>undefined\<close>, as long as it can be converted to a string) is turned
  into one error-flagged tool-result message, and the loop goes on.
\<close>

lemma tool_fault_with_text_does_not_abort:
  assumes "iteration < maxIterations config"
    and "enhancePromptWithPageContext env
           (systemPrompt config @ iterationInfo iteration (maxIterations config)) (world s)
         = (currentSystemPrompt, w1)"
    and "callOpenAI env (llmRequest env config toolSchemas messages currentSystemPrompt) w1
         = (Inr openAIResponse, w2)"
    and "parseOpenAIResponse env openAIResponse = ToolCall toolName toolArgs"
    and "toolMap toolName = Some toolToExecute"
    and "\<not> (startsWith ''handoff_to_'' toolName \<and> isConfigurableAgentTool toolToExecute)"
    and "execute (toolOf toolToExecute) toolArgs w2 = (Inl err, w3)"
    and "faultText err = Inr txt"
  shows "runLoop runner env args config hks executingAgent toolMap toolSchemas
           iteration messages s
         = runLoop runner env args config hks executingAgent toolMap toolSchemas
             (Suc iteration)
             (messages
              @ [MODEL
                   \<lparr> mm_action = ''tool'',
                     mm_toolName = Some toolName,
                     mm_toolArgs = Some toolArgs,
                     mm_answer = None,
                     mm_isFinalAnswer = False,
                     mm_reasoning =
                       optChain (getProp openAIResponse ''reasoning'') ''summary'' \<rparr>,
                 TOOL_RESULT
                   \<lparr> tr_toolName = toolName,
                     tr_resultText = JStr (''Error during tool execution: '' @ txt),
                     tr_isError = True,
                     tr_error = Some (JStr (''Error during tool execution: '' @ txt)),
                     tr_resultData =
                       Some (JObj [(''error'',
                                    JStr (''Error during tool execution: '' @ txt))]) \<rparr>])
             \<lparr> world = w3, llmCalls = Suc (llmCalls s) \<rparr>"
proof -
  have "toolOutcome env (Inl err)
        = Inr (JStr (''Error during tool execution: '' @ txt), True,
               JObj [(''error'', JStr (''Error during tool execution: '' @ txt))])"
    using assms(8) by (simp add: toolOutcome_def toolTry_def Let_def)
  with runIteration_regular [where toolMap = toolMap and toolName = toolName,
                             OF assms(2,3,4,5,6,7)]
  have "runIteration runner env config hks executingAgent toolMap toolSchemas
          iteration messages s
        = NextIteration
            (messages @ [toolCallMessage toolName toolArgs openAIResponse,
                         toolResultMessage toolName
                           (JStr (''Error during tool execution: '' @ txt), True,
                            JObj [(''error'',
                                   JStr (''Error during tool execution: '' @ txt))])])
            \<lparr> world = w3, llmCalls = Suc (llmCalls s) \<rparr>"
    by simp
  with assms(1) show ?thesis
    by (simp add: runLoop_step toolCallMessage_def toolResultMessage_def)
qed

lemma tool_fault_with_text_example:
  "run 0 demoEnv [userHello] JNull (demoConfig 2) demoHooks None
     \<lparr> world = [callOf ''boom'', answerOf ''done''], llmCalls = 0 \<rparr>
   = Some (\<lparr> success = True, res_output = Some ''done'', res_error = None,
             intermediateSteps =
               Some [userHello,
                     modelCall ''boom'',
                     TOOL_RESULT
                       \<lparr> tr_toolName = ''boom'',
                         tr_resultText = JStr ''Error during tool execution: boom'',
                         tr_isError = True,
                         tr_error = Some (JStr ''Error during tool execution: boom''),
                         tr_resultData =
                           Some (JObj [(''error'',
                                        JStr ''Error during tool execution: boom'')]) \<rparr>,
                     modelFinal ''done''],
             terminationReason = Some R_final_answer \<rparr>,
           \<lparr> world = [], llmCalls = 2 \<rparr>)"
  by (simp add: demo_defs runLoop_step Let_def)

text \<open>
  C4, where the code departs from it. The tool \<open>nuller\<close> is registered and its
  \<open>execute\<close> throws \<open>null\<close>. Two iterations are allowed and a final answer waits as
  the second response. The inner \<open>catch\<close> reads \<open>err.message\<close> of \<open>null\<close>, which raises
  a \<open>TypeError\<close> in the \<open>catch\<close> itself; the outer \<open>catch\<close> appends a \<open>system_error\<close>
  message and returns the error result with reason \<open>error\<close>. No tool-result message
  for \<open>nuller\<close> is appended, the second response is never read, and the run has made
  one LLM call.
\<close>

theorem tool_throwing_null_ends_run:
  "maxIterations (demoConfig 2) = 2 \<and>
   execute nullTool (JObj []) [answerOf ''done''] = (Inl JNull, [answerOf ''done'']) \<and>
   run 0 demoEnv [userHello] JNull (demoConfig 2) demoHooks None
     \<lparr> world = [callOf ''nuller'', answerOf ''done''], llmCalls = 0 \<rparr>
   = Some (\<lparr> success = False, res_output = None,
             res_error =
               Some (''Agent loop error: Cannot read properties of null (reading ''
                     @ [CHR 0x27] @ ''message'' @ [CHR 0x27] @ '')''),
             intermediateSteps =
               Some [userHello,
                     modelCall ''nuller'',
                     systemError
                       (''Agent loop error: Cannot read properties of null (reading ''
                        @ [CHR 0x27] @ ''message'' @ [CHR 0x27] @ '')'')],
             terminationReason = Some R_error \<rparr>,
           \<lparr> world = [answerOf ''done''], llmCalls = 1 \<rparr>)"
  by (simp add: demo_defs runLoop_step Let_def)

section \<open>The bound on the iterations\<close>

text \<open>
  Two iterations are allowed and both responses call \<open>echo\<close>, which returns: the run
  calls the LLM twice, appends both calls with their results, and ends with reason
  \<open>max_iterations\<close>.
\<close>

lemma max_iterations_example:
  "run 0 demoEnv [userHello] JNull (demoConfig 2) demoHooks None
     \<lparr> world = [callOf ''echo'', callOf ''echo'', answerOf ''unread''], llmCalls = 0 \<rparr>
   = Some (\<lparr> success = False, res_output = None,
             res_error = Some ''Agent reached maximum iterations (2)'',
             intermediateSteps =
               Some [userHello, modelCall ''echo'', echoResult, modelCall ''echo'', echoResult],
             terminationReason = Some R_max_iterations \<rparr>,
           \<lparr> world = [answerOf ''unread''], llmCalls = 2 \<rparr>)"
  by (simp add: demo_defs runLoop_step runLoop_exit Let_def showNat.simps digitChar_def)

text \<open>
  C2, where the code departs from it. Two iterations are allowed, no agent is
  executing (so no handoff is configured), and both responses of the LLM are calls of
  \<open>nuller\<close>, a registered tool that is not a handoff tool and whose \<open>execute\<close> throws
  \<open>null\<close>. The run ends in its first iteration with reason \<open>error\<close>, not
  \<open>max_iterations\<close>: it has called the LLM once, and the second response is still
  unread in the world.
\<close>

theorem null_fault_ends_run_before_max_iterations:
  "maxIterations (demoConfig 2) = 2 \<and>
   parseOpenAIResponse demoEnv (callOf ''nuller'') = ToolCall ''nuller'' (JObj []) \<and>
   initialToolMap (tools (demoConfig 2)) ''nuller'' = Some (PlainTool nullTool) \<and>
   run 0 demoEnv [userHello] JNull (demoConfig 2) demoHooks None
     \<lparr> world = [callOf ''nuller'', callOf ''nuller''], llmCalls = 0 \<rparr>
   = Some (\<lparr> success = False, res_output = None,
             res_error =
               Some (''Agent loop error: Cannot read properties of null (reading ''
                     @ [CHR 0x27] @ ''message'' @ [CHR 0x27] @ '')''),
             intermediateSteps =
               Some [userHello,
                     modelCall ''nuller'',
                     systemError
                       (''Agent loop error: Cannot read properties of null (reading ''
                        @ [CHR 0x27] @ ''message'' @ [CHR 0x27] @ '')'')],
             terminationReason = Some R_error \<rparr>,
           \<lparr> world = [callOf ''nuller''], llmCalls = 1 \<rparr>)"
  by (simp add: demo_defs runLoop_step Let_def)

section \<open>The error flag of an object result\<close>

text \<open>
  C5, as the code has it. A tool in the tool map that is not a handoff tool returns
  an object (or an array or an \<open>Error\<close>) that has a prototype and no own property
  named \<open>hasOwnProperty\<close>, and \<open>JSON.stringify\<close> returns for it. Then the iteration
  appends the model message of the call and one tool-result message that carries the
  object, and the loop goes on. The message is flagged as an error exactly when the
  object has an own property \<open>error\<close> whose value is truthy, or an own property
  \<open>success\<close> that is \<open>false\<close>. Its text is then the value of \<open>error\<close>, or else of
  \<open>message\<close>, when that is truthy, and the JSON text otherwise.
\<close>

theorem result_object_error_flag:
  assumes "enhancePromptWithPageContext env
             (systemPrompt config @ iterationInfo iteration (maxIterations config)) (world s)
           = (currentSystemPrompt, w1)"
    and "callOpenAI env (llmRequest env config toolSchemas messages currentSystemPrompt) w1
         = (Inr openAIResponse, w2)"
    and "parseOpenAIResponse env openAIResponse = ToolCall toolName toolArgs"
    and "toolMap toolName = Some toolToExecute"
    and "\<not> (startsWith ''handoff_to_'' toolName \<and> isConfigurableAgentTool toolToExecute)"
    and "execute (toolOf toolToExecute) toolArgs w2 = (Inr toolResultData, w3)"
    and "isObject toolResultData"
    and "\<forall>kvs. toolResultData \<noteq> JBare kvs"
    and "map_of (ownProperties toolResultData) ''hasOwnProperty'' = None"
    and "jsonStringify env toolResultData = Inr jsonText"
  shows "runIteration runner env config hks executingAgent toolMap toolSchemas
           iteration messages s
         = NextIteration
             (messages
              @ [MODEL
                   \<lparr> mm_action = ''tool'',
                     mm_toolName = Some toolName,
                     mm_toolArgs = Some toolArgs,
                     mm_answer = None,
                     mm_isFinalAnswer = False,
                     mm_reasoning =
                       optChain (getProp openAIResponse ''reasoning'') ''summary'' \<rparr>,
                 if (\<exists>v. map_of (ownProperties toolResultData) ''error'' = Some v \<and> truthy v)
                 then TOOL_RESULT
                        \<lparr> tr_toolName = toolName,
                          tr_resultText = getProp toolResultData ''error'',
                          tr_isError = True,
                          tr_error = Some (getProp toolResultData ''error''),
                          tr_resultData = Some toolResultData \<rparr>
                 else if map_of (ownProperties toolResultData) ''success'' = Some (JBool False)
                 then TOOL_RESULT
                        \<lparr> tr_toolName = toolName,
                          tr_resultText =
                            (if truthy (getProp toolResultData ''message'')
                             then getProp toolResultData ''message'' else jsonText),
                          tr_isError = True,
                          tr_error =
                            Some (if truthy (getProp toolResultData ''message'')
                                  then getProp toolResultData ''message'' else jsonText),
                          tr_resultData = Some toolResultData \<rparr>
                 else TOOL_RESULT
                        \<lparr> tr_toolName = toolName,
                          tr_resultText = jsonText,
                          tr_isError = False,
                          tr_error = None,
                          tr_resultData = Some toolResultData \<rparr>])
             \<lparr> world = w3, llmCalls = Suc (llmCalls s) \<rparr>"
proof -
  let ?own = "map_of (ownProperties toolResultData)"
  define flagged where "flagged \<longleftrightarrow> (\<exists>v. ?own ''error'' = Some v \<and> truthy v)"
  define failed where "failed \<longleftrightarrow> ?own ''success'' = Some (JBool False)"
  define own where "own k \<longleftrightarrow> ?own k \<noteq> None" for k
  have has: "hasOwnProperty callee toolResultData k = Inr (own k)" for callee k
    unfolding own_def using assms(7,8,9) by (cases toolResultData) simp_all
  have text0: "(case toolResultData of JStr str \<Rightarrow> Inr (JStr str)
                | _ \<Rightarrow> jsonStringify env toolResultData) = Inr jsonText"
    using assms(7,10) by (cases toolResultData) simp_all
  have data: "truthy toolResultData"
    using assms(7) by (cases toolResultData) simp_all
  have read: "getProp toolResultData k = (case ?own k of None \<Rightarrow> JUndefined | Some x \<Rightarrow> x)"
    for k
    by (simp add: getProp_def)
  have errorTest: "(own ''error'' \<and> truthy (getProp toolResultData ''error'')) = flagged"
    unfolding flagged_def own_def by (cases "?own ''error''") (simp_all add: read)
  have successTest: "(own ''success'' \<and> getProp toolResultData ''success'' = JBool False)
                     = failed"
    unfolding failed_def own_def by (cases "?own ''success''") (simp_all add: read)
  have falsy: "\<not> flagged \<Longrightarrow> truthy (getProp toolResultData ''error'') = False"
    unfolding flagged_def by (cases "?own ''error''") (simp_all add: read)
  have tried: "toolTry env (Inr toolResultData)
        = Inr (if flagged
               then (getProp toolResultData ''error'', True, toolResultData)
               else if failed
               then (if truthy (getProp toolResultData ''message'')
                     then getProp toolResultData ''message'' else jsonText,
                     True, toolResultData)
               else (jsonText, False, toolResultData))"
    using assms(7) errorTest
    by (cases flagged) (simp_all add: toolTry_def text0 has successTest js_or_def falsy)
  have step: "runIteration runner env config hks executingAgent toolMap toolSchemas
                iteration messages s
              = NextIteration
                  (messages @ [toolCallMessage toolName toolArgs openAIResponse,
                               toolResultMessage toolName
                                 (if flagged
                                  then (getProp toolResultData ''error'', True, toolResultData)
                                  else if failed
                                  then (if truthy (getProp toolResultData ''message'')
                                        then getProp toolResultData ''message'' else jsonText,
                                        True, toolResultData)
                                  else (jsonText, False, toolResultData))])
                  \<lparr> world = w3, llmCalls = Suc (llmCalls s) \<rparr>"
    using runIteration_regular [where toolMap = toolMap and toolName = toolName
                                  and runner = runner and hks = hks
                                  and executingAgent = executingAgent,
                                OF assms(1,2,3,4,5,6)]
    by (simp add: toolOutcome_def tried)
  show ?thesis
    unfolding step flagged_def [symmetric] failed_def [symmetric]
    using data
    by (simp add: toolCallMessage_def toolResultMessage_def)
qed

theorem result_object_error_flag_witness:
  "run 0 demoEnv [userHello] JNull (demoConfig 2) demoHooks None
     \<lparr> world = [callOf ''refuse'', answerOf ''done''], llmCalls = 0 \<rparr>
   = Some (\<lparr> success = True, res_output = Some ''done'', res_error = None,
             intermediateSteps =
               Some [userHello,
                     modelCall ''refuse'',
                     TOOL_RESULT
                       \<lparr> tr_toolName = ''refuse'',
                         tr_resultText = JStr ''denied'',
                         tr_isError = True,
                         tr_error = Some (JStr ''denied''),
                         tr_resultData =
                           Some (JObj [(''success'', JBool False),
                                       (''message'', JStr ''denied'')]) \<rparr>,
                     modelFinal ''done''],
             terminationReason = Some R_final_answer \<rparr>,
           \<lparr> world = [], llmCalls = 2 \<rparr>)"
proof -
  let ?s = "\<lparr> world = [callOf ''refuse'', answerOf ''done''], llmCalls = 0 \<rparr>"
  let ?sp = "systemPrompt (demoConfig 2) @ iterationInfo 0 (maxIterations (demoConfig 2))"
  let ?tm = "initialToolMap (tools (demoConfig 2))"
  let ?data = "JObj [(''success'', JBool False), (''message'', JStr ''denied'')]"
  have enh: "enhancePromptWithPageContext demoEnv ?sp (world ?s) = (?sp, world ?s)"
    by (simp add: demoEnv_def)
  have call: "callOpenAI demoEnv req (world ?s)
              = (Inr (callOf ''refuse''), [answerOf ''done''])" for req
    by (simp add: demoEnv_def scriptedLLM_def)
  have parse: "parseOpenAIResponse demoEnv (callOf ''refuse'') = ToolCall ''refuse'' (JObj [])"
    by (simp add: demoEnv_def demoParse_def callOf_def getProp_def)
  have known: "?tm ''refuse'' = Some (PlainTool refuseTool)"
    by (simp add: initialToolMap_def demoConfig_def echoTool_def boomTool_def
                  softFailTool_def refuseTool_def nullTool_def)
  have regular: "\<not> (startsWith ''handoff_to_'' ''refuse''
                     \<and> isConfigurableAgentTool (PlainTool refuseTool))"
    by simp
  have exec: "execute (toolOf (PlainTool refuseTool)) (JObj []) [answerOf ''done'']
              = (Inr ?data, [answerOf ''done''])"
    by (simp add: refuseTool_def)
  have obj: "isObject ?data"
    by simp
  have proto: "\<forall>kvs. ?data \<noteq> JBare kvs"
    by simp
  have plain: "map_of (ownProperties ?data) ''hasOwnProperty'' = None"
    by simp
  have json: "jsonStringify demoEnv ?data = Inr JUndefined"
    by (simp add: demoEnv_def demoJson_def demoStringify_def)
  have first: "runIteration (noRunner :: jsval list runner) demoEnv (demoConfig 2) demoHooks
                 None ?tm (map toolSchemaOf (tools (demoConfig 2))) 0 [userHello] ?s
               = NextIteration
                   [userHello, modelCall ''refuse'',
                    TOOL_RESULT
                      \<lparr> tr_toolName = ''refuse'', tr_resultText = JStr ''denied'',
                        tr_isError = True, tr_error = Some (JStr ''denied''),
                        tr_resultData = Some ?data \<rparr>]
                   \<lparr> world = [answerOf ''done''], llmCalls = 1 \<rparr>"
    using result_object_error_flag
            [where toolMap = ?tm and toolName = "''refuse''" and runner = noRunner
               and hks = demoHooks and executingAgent = None,
             OF enh call parse known regular exec obj proto plain json]
    by (simp add: getProp_def modelCall_def callOf_def)
  have rest: "runLoop (noRunner :: jsval list runner) demoEnv JNull (demoConfig 2) demoHooks
                None ?tm (map toolSchemaOf (tools (demoConfig 2))) (Suc 0)
                [userHello, modelCall ''refuse'',
                 TOOL_RESULT
                   \<lparr> tr_toolName = ''refuse'', tr_resultText = JStr ''denied'',
                     tr_isError = True, tr_error = Some (JStr ''denied''),
                     tr_resultData = Some ?data \<rparr>]
                \<lparr> world = [answerOf ''done''], llmCalls = 1 \<rparr>
              = Some (\<lparr> success = True, res_output = Some ''done'', res_error = None,
                        intermediateSteps =
                          Some [userHello, modelCall ''refuse'',
                                TOOL_RESULT
                                  \<lparr> tr_toolName = ''refuse'', tr_resultText = JStr ''denied'',
                                    tr_isError = True, tr_error = Some (JStr ''denied''),
                                    tr_resultData = Some ?data \<rparr>,
                                modelFinal ''done''],
                        terminationReason = Some R_final_answer \<rparr>,
                      \<lparr> world = [], llmCalls = 2 \<rparr>)"
    by (simp add: demo_defs runLoop_step Let_def)
  have lt: "0 < maxIterations (demoConfig 2)"
    by (simp add: demoConfig_def)
  show ?thesis
    unfolding run.simps runWith_def buildTools_def agentHandoffs_def
    using first rest lt
    by (simp add: runLoop_step demoHooks_def)
qed

text \<open>
  An \<open>error\<close> field alone does not flag the result: the tool \<open>soft\<close> returns an object
  whose \<open>error\<close> field is the empty string, and its tool-result message is not an
  error.
\<close>

theorem error_field_always_flags_counterexample:
  "execute softFailTool (JObj []) [answerOf ''done'']
   = (Inr (JObj [(''error'', JStr [])]), [answerOf ''done'']) \<and>
   run 0 demoEnv [userHello] JNull (demoConfig 2) demoHooks None
     \<lparr> world = [callOf ''soft'', answerOf ''done''], llmCalls = 0 \<rparr>
   = Some (\<lparr> success = True, res_output = Some ''done'', res_error = None,
             intermediateSteps =
               Some [userHello,
                     modelCall ''soft'',
                     TOOL_RESULT
                       \<lparr> tr_toolName = ''soft'',
                         tr_resultText = JStr emptyErrorJson,
                         tr_isError = False,
                         tr_error = None,
                         tr_resultData = Some (JObj [(''error'', JStr [])]) \<rparr>,
                     modelFinal ''done''],
             terminationReason = Some R_final_answer \<rparr>,
           \<lparr> world = [], llmCalls = 2 \<rparr>)"
  by (simp add: demo_defs runLoop_step Let_def)

text \<open>
  An object with an own property named \<open>hasOwnProperty\<close> is outside the theorem
  above: the call of that property raises a \<open>TypeError\<close>, which the inner \<open>catch\<close>
  turns into an error result that replaces the object.
\<close>

lemma shadowed_hasOwnProperty_is_flagged:
  "toolOutcome demoEnv (Inr (JObj [(''hasOwnProperty'', JNum 1)]))
   = Inr (JStr ''Error during tool execution: toolResultData.hasOwnProperty is not a function'',
          True,
          JObj [(''error'',
                 JStr ''Error during tool execution: toolResultData.hasOwnProperty is not a function'')])"
  by (simp add: toolOutcome_def toolTry_def faultText_def getProp_def notAFunction_def
                demoEnv_def demoJson_def Let_def)

section \<open>A handoff whose target does not resolve\<close>

text \<open>
  C7. When the target name of a handoff is not registered, or is registered as a
  plain tool, \<open>executeHandoff\<close> returns at once the error result of the initiating
  agent with reason \<open>error\<close> and the current messages. The target's run is not
  started: the result is the same whatever that run would do, and the world and the
  count of LLM calls are unchanged.
\<close>

theorem handoff_target_unresolved:
  assumes "getRegisteredTool env (targetAgentName handoffConfig) = None
           \<or> (\<exists>t. getRegisteredTool env (targetAgentName handoffConfig) = Some (PlainTool t))"
  shows "executeHandoff runner env currentMessages originalArgs handoffConfig executingAgent
           key defaultModelName defaultMaxIterations defaultTemperature
           defaultCreateSuccessResult defaultCreateErrorResult llmToolArgs s
         = Some (defaultCreateErrorResult
                   (targetNotFoundMsg (targetAgentName handoffConfig)) currentMessages R_error,
                 s)"
  using assms by (auto simp: executeHandoff_def)

theorem handoff_target_unresolved_witness:
  "executeHandoff (run 5 demoEnv) demoEnv [userHello] JNull
     \<lparr> targetAgentName = ''echo'', trigger = None, includeToolResults = None \<rparr>
     (researcherTool, researcherConfig) ''key'' ''model'' 3 0 carrySuccess carryError None
     \<lparr> world = [answerOf ''unused''], llmCalls = 0 \<rparr>
   = Some (carryError
             (''Handoff target '' @ [CHR 0x27] @ ''echo'' @ [CHR 0x27]
              @ '' not found or is not a ConfigurableAgentTool.'')
             [userHello] R_error,
           \<lparr> world = [answerOf ''unused''], llmCalls = 0 \<rparr>)
   \<and> executeHandoff (run 5 demoEnv) demoEnv [userHello] JNull
       \<lparr> targetAgentName = ''nobody'', trigger = None, includeToolResults = None \<rparr>
       (researcherTool, researcherConfig) ''key'' ''model'' 3 0 carrySuccess carryError None
       \<lparr> world = [answerOf ''unused''], llmCalls = 0 \<rparr>
     = Some (carryError
               (''Handoff target '' @ [CHR 0x27] @ ''nobody'' @ [CHR 0x27]
                @ '' not found or is not a ConfigurableAgentTool.'')
               [userHello] R_error,
             \<lparr> world = [answerOf ''unused''], llmCalls = 0 \<rparr>)"
proof -
  have plain: "getRegisteredTool demoEnv
                 (targetAgentName \<lparr> targetAgentName = ''echo'', trigger = None,
                                    includeToolResults = None \<rparr>) = None
               \<or> (\<exists>t. getRegisteredTool demoEnv
                         (targetAgentName \<lparr> targetAgentName = ''echo'', trigger = None,
                                            includeToolResults = None \<rparr>)
                       = Some (PlainTool t))"
    by (simp add: demoEnv_def demoRegistry_def)
  have missing: "getRegisteredTool demoEnv
                   (targetAgentName \<lparr> targetAgentName = ''nobody'', trigger = None,
                                      includeToolResults = None \<rparr>) = None
                 \<or> (\<exists>t. getRegisteredTool demoEnv
                           (targetAgentName \<lparr> targetAgentName = ''nobody'', trigger = None,
                                              includeToolResults = None \<rparr>)
                         = Some (PlainTool t))"
    by (simp add: demoEnv_def demoRegistry_def)
  show ?thesis
    using handoff_target_unresolved [OF plain] handoff_target_unresolved [OF missing]
    by (simp add: targetNotFoundMsg_def)
qed


section \<open>The history handed to the target agent\<close>

lemma isCarriedResult_simps:
  "isCarriedResult allow (USER u) = False"
  "isCarriedResult allow (MODEL mm) = False"
  "isCarriedResult allow (TOOL_RESULT tr) = (\<not> tr_isError tr \<and> tr_toolName tr \<in> set allow)"
  by (simp_all add: isCarriedResult_def)

lemma collectToolResults_filter:
  "collectToolResults allow ms = filter (isCarriedResult (removeAll [] allow)) ms"
proof (induction ms)
  case Nil
  show ?case by simp
next
  case (Cons m ms)
  then show ?case
    by (cases m) (auto simp: isCarriedResult_simps)
qed

lemma handoffMessages_spec:
  "handoffMessages handoffConfig currentMessages =
     (case includeToolResults handoffConfig of
        None \<Rightarrow> currentMessages
      | Some allow \<Rightarrow>
          if allow = [] then currentMessages
          else transferredHistory (removeAll [] allow) currentMessages)"
  by (simp add: handoffMessages_def transferredHistory_def collectToolResults_filter
           split: option.splits)

text \<open>
  C3, as the code has it. When the target resolves to an agent, \<open>executeHandoff\<close>
  runs that agent on this history: with a non-empty allow-list, the first user
  message of the source history (if any) followed by the tool-result messages that
  are not errors and whose tool name is not empty and is in the allow-list, in their
  original order; with no allow-list (or an empty one), the whole source history.
\<close>

theorem handoff_history_is_filtered:
  assumes "getRegisteredTool env (targetAgentName handoffConfig)
           = Some (ConfigurableAgentTool targetAgentTool targetConfig)"
    and "enhancePromptWithPageContext env (cfg_systemPrompt targetConfig) (world s)
         = (enhancedSystemPrompt, w1)"
  shows "executeHandoff runner env currentMessages originalArgs handoffConfig executingAgent
           key defaultModelName defaultMaxIterations defaultTemperature
           defaultCreateSuccessResult defaultCreateErrorResult llmToolArgs s
         = map_option (\<lambda>(r, s'). (finishHandoff targetConfig currentMessages r, s'))
             (runner
                (case includeToolResults handoffConfig of
                   None \<Rightarrow> currentMessages
                 | Some allow \<Rightarrow>
                     if allow = [] then currentMessages
                     else transferredHistory (removeAll [] allow) currentMessages)
                (nullishOr llmToolArgs originalArgs)
                (targetRunnerConfig env targetConfig key enhancedSystemPrompt
                   defaultModelName defaultMaxIterations defaultTemperature)
                (targetRunnerHooks targetConfig
                   defaultCreateSuccessResult defaultCreateErrorResult)
                (Some (targetAgentTool, targetConfig))
                (s \<lparr> world := w1 \<rparr>))"
  using assms
  by (simp add: executeHandoff_def handoffMessages_spec [symmetric] split: option.splits)

text \<open>The example of the specification: a user message, a result of \<open>toolA\<close> and a
  result of \<open>toolB\<close>, with \<open>toolA\<close> allowed. The reviewer returns the history before
  the handoff followed by its own, which here is what it was given.\<close>

theorem handoff_history_is_filtered_witness:
  "executeHandoff probeRunner demoEnv
     [userHello, toolResultOk ''toolA'' ''a'', toolResultOk ''toolB'' ''b''] JNull
     \<lparr> targetAgentName = ''reviewer'', trigger = None, includeToolResults = Some [''toolA''] \<rparr>
     (researcherTool, researcherConfig) ''key'' ''model'' 3 0 carrySuccess carryError None
     \<lparr> world = [], llmCalls = 0 \<rparr>
   = Some (carrySuccess ''ok''
             ([userHello, toolResultOk ''toolA'' ''a'', toolResultOk ''toolB'' ''b'']
              @ [userHello, toolResultOk ''toolA'' ''a''])
             R_final_answer,
           \<lparr> world = [], llmCalls = 0 \<rparr>)"
proof -
  let ?h = "\<lparr> targetAgentName = ''reviewer'', trigger = None,
               includeToolResults = Some [''toolA''] \<rparr>"
  let ?s = "\<lparr> world = ([] :: jsval list), llmCalls = 0 \<rparr>"
  have target: "getRegisteredTool demoEnv (targetAgentName ?h)
                = Some (ConfigurableAgentTool reviewerTool reviewerConfig)"
    by (simp add: demoEnv_def demoRegistry_def)
  have enh: "enhancePromptWithPageContext demoEnv (cfg_systemPrompt reviewerConfig) (world ?s)
             = (cfg_systemPrompt reviewerConfig, [])"
    by (simp add: demoEnv_def)
  show ?thesis
    using handoff_history_is_filtered [OF target enh, of probeRunner]
    by (simp add: probeRunner_def transferredHistory_def isCarriedResult_simps
                  targetRunnerHooks_def finishHandoff_def reviewerConfig_def
                  carrySuccess_def toolResultOk_def userHello_def)
qed

text \<open>
  A result whose tool name is the empty string is not carried forward, although it is
  not an error and the empty name is in the allow-list.
\<close>

theorem handoff_history_empty_name_counterexample:
  "handoffMessages
     \<lparr> targetAgentName = ''reviewer'', trigger = None, includeToolResults = Some [[]] \<rparr>
     [userHello, toolResultOk [] ''r'']
   = [userHello]
   \<and> transferredHistory [[]] [userHello, toolResultOk [] ''r'']
     = [userHello, toolResultOk [] ''r'']"
  by (simp add: handoffMessages_def transferredHistory_def isCarriedResult_simps
                toolResultOk_def userHello_def)

section \<open>The messages are only appended to\<close>















section \<open>The entry point of a built graph\<close>

lemma addNode_lookup:
  "map_of (sg_nodes (addNode n node g)) = (map_of (sg_nodes g))(n \<mapsto> node)"
  by (simp add: addNode_def AList.update_conv')

lemma addConfiguredNodes_Cons:
  assumes "addConfiguredNodes (n # ns) (out, g) = (out', Inr g')"
  shows "\<exists>out1 node. addConfiguredNodes ns (out1, addNode (node_name n) node g)
                       = (out', Inr g')"
proof (cases "nodeFactories (node_type n) :: (graph_node_config \<Rightarrow> 'a runnable option) option")
  case None
  with assms have "addConfiguredNodes ns
                 (out @ [(WARN, ''[ConfigurableGraph] Unknown node type: '' @ node_type n
                                @ '' for node '' @ node_name n
                                @ ''. Adding a dummy error node.'')],
                  addNode (node_name n) (UnknownTypeNode (node_type n) (node_name n)) g)
               = (out', Inr g')"
    by simp
  then show ?thesis by blast
next
  case (Some factory)
  show ?thesis
  proof (cases "factory n")
    case None
    with Some assms show ?thesis
      by simp
  next
    case (Some nodeInstance)
    with \<open>nodeFactories (node_type n) = Some factory\<close> assms
    have "addConfiguredNodes ns
                 (out @ [(LOG, ''[ConfigurableGraph] Added node: '' @ node_name n
                               @ '' (type: '' @ node_type n @ '')'')],
                  addNode (node_name n) nodeInstance g)
          = (out', Inr g')"
      by simp
    then show ?thesis by blast
  qed
qed

lemma addConfiguredNodes_registers:
  "addConfiguredNodes ns (out, g) = (out', Inr g') \<Longrightarrow>
   map_of (sg_nodes g') k \<noteq> None
   \<longleftrightarrow> k \<in> node_name ` set ns \<or> map_of (sg_nodes g) k \<noteq> None"
proof (induction ns arbitrary: out g)
  case Nil
  then show ?case by simp
next
  case (Cons n ns)
  from addConfiguredNodes_Cons [OF Cons.prems] obtain out1 node where
    "addConfiguredNodes ns (out1, addNode (node_name n) node g) = (out', Inr g')"
    by blast
  from Cons.IH [OF this]
  have "map_of (sg_nodes g') k \<noteq> None
        \<longleftrightarrow> k \<in> node_name ` set ns
            \<or> map_of (sg_nodes (addNode (node_name n) node g)) k \<noteq> None" .
  also have "\<dots> \<longleftrightarrow> k \<in> node_name ` set (n # ns) \<or> map_of (sg_nodes g) k \<noteq> None"
    by (auto simp: addNode_lookup)
  finally show ?case .
qed

lemma addConfiguredEdges_nodes:
  "sg_nodes (snd (addConfiguredEdges rt es (out, g))) = sg_nodes g"
proof (induction es arbitrary: out g)
  case Nil
  show ?case by simp
next
  case (Cons e es)
  show ?case
    by (cases "conditionFactories rt (conditionType e)")
       (simp_all add: Cons.IH addConditionalEdges_def)
qed

lemma compile_with_registered_entry:
  assumes "map_of (sg_nodes g) e \<noteq> None"
  shows "compileGraph (setEntryPoint e g)
         = Inr \<lparr> cg_entryPoint = e, cg_nodes = sg_nodes g,
                 cg_conditionalEdges = sg_conditionalEdges g \<rparr>"
proof -
  from assms have "sg_nodes g \<noteq> []"
    by auto
  with assms show ?thesis
    by (simp add: compileGraph_def compile_def setEntryPoint_def)
qed

text \<open>
  When the loop over the nodes comes to its end (no call of a factory fails) and the
  declared entry point names no declared node: with at least one node the graph is
  compiled with the first declared node as its entry point, with the nodes and edges
  that the two loops have registered, and the fallback is written to the console as
  a warning; with no node the builder throws its configuration error.
\<close>

lemma entry_point_fallback_of_built_nodes:
  assumes "find (\<lambda>n. node_name n = entryPoint config) (nodes config) = None"
    and "addConfiguredNodes (nodes config)
           ([(LOG, ''[ConfigurableGraph] Creating graph from config: '' @ graph_name config)],
            newStateGraph (graph_name config))
         = (out0, Inr graph0)"
    and "addConfiguredEdges rt (edges config) (out0, graph0) = (out, graph)"
  shows "createAgentGraphFromConfig rt config
         = (case nodes config of
              [] \<Rightarrow>
                (out @ [(ERROR, ''[ConfigurableGraph] Entry point \"'' @ entryPoint config
                                @ ''\" not found in defined nodes.'')],
                 Inl (Thrown (Error ''[ConfigurableGraph] No nodes defined in graph config, cannot set entry point.'')))
            | firstNode # rest \<Rightarrow>
                (out @ [(ERROR, ''[ConfigurableGraph] Entry point \"'' @ entryPoint config
                                @ ''\" not found in defined nodes.''),
                        (WARN, ''[ConfigurableGraph] Setting entry point to fallback: ''
                               @ node_name firstNode)],
                 Inr \<lparr> cg_entryPoint = node_name firstNode,
                       cg_nodes = sg_nodes graph,
                       cg_conditionalEdges = sg_conditionalEdges graph \<rparr>))"
proof (cases "nodes config")
  case Nil
  with assms show ?thesis
    by (simp add: createAgentGraphFromConfig_def)
next
  case (Cons firstNode rest)
  have "node_name firstNode \<in> node_name ` set (nodes config)"
    using Cons by simp
  with addConfiguredNodes_registers [OF assms(2), of "node_name firstNode"]
  have "map_of (sg_nodes graph0) (node_name firstNode) \<noteq> None"
    by simp
  moreover have "sg_nodes graph = sg_nodes graph0"
    using addConfiguredEdges_nodes [of rt "edges config" out0 graph0] assms(3) by simp
  ultimately have "map_of (sg_nodes graph) (node_name firstNode) \<noteq> None"
    by simp
  from compile_with_registered_entry [OF this] assms Cons
  show ?thesis
    by (simp add: createAgentGraphFromConfig_def)
qed

lemma entry_point_fallback_example:
  "createAgentGraphFromConfig demoRouting (demoGraphConfig demoNodes)
   = ([(LOG, ''[ConfigurableGraph] Creating graph from config: demo''),
       (LOG, ''[ConfigurableGraph] Added node: agent (type: agent)''),
       (LOG, ''[ConfigurableGraph] Added node: tools (type: toolExecutor)''),
       (LOG, ''[ConfigurableGraph] Added node: final (type: final)''),
       (LOG, ''[ConfigurableGraph] Added edge from agent via routeOrPrepareToolExecutor''),
       (ERROR, ''[ConfigurableGraph] Entry point \"start\" not found in defined nodes.''),
       (WARN, ''[ConfigurableGraph] Setting entry point to fallback: agent'')],
      Inr \<lparr> cg_entryPoint = ''agent'',
            cg_nodes = [(''agent'', AgentNode),
                        (''tools'', ToolExecutorPlaceholder ''tools''),
                        (''final'', FinalNode)],
            cg_conditionalEdges = [(''agent'', demoEdge ''tools'')] \<rparr>)"
  by (simp add: createAgentGraphFromConfig_def demoGraphConfig_def demoNodes_def
                nodeFactories_def conditionFactories_def newStateGraph_def addNode_def
                addConditionalEdges_def setEntryPoint_def compileGraph_def compile_def
                demoEdge_def)

text \<open>
  C9, where the code departs from it. The configuration declares the entry point
  \<open>start\<close> and one node, named \<open>agent\<close>, whose type is \<open>valueOf\<close>. The table of
  node factories is a plain object, so the lookup of that type finds the function
  that every object inherits; the builder calls it as a factory, the call raises a
  \<open>TypeError\<close>, and the builder is left in the loop over the nodes: no entry point is
  set, no fallback is recorded and nothing is compiled.
\<close>

theorem inherited_node_type_stops_the_builder:
  "(createAgentGraphFromConfig demoRouting
      \<lparr> graph_name = ''demo'', entryPoint = ''start'',
        nodes = [\<lparr> node_name = ''agent'', node_type = ''valueOf'' \<rparr>],
        edges = [] \<rparr>
    :: console \<times> (graph_fault + string list compiled_graph))
   = ([(LOG, ''[ConfigurableGraph] Creating graph from config: demo'')],
      Inl (FactoryCallFailed ''valueOf''))"
  by (simp add: createAgentGraphFromConfig_def nodeFactories_def objectPrototypeNames_def
                newStateGraph_def)

section \<open>Routing to the tool executor\<close>

lemma graphRun_end_key:
  assumes "graphRun rt nm graph current before states ending"
    and "map_of (sg_nodes graph) current = Some node"
    and "invokeNode nm node before = Some state"
    and "map_of (sg_conditionalEdges graph) current = Some edgeConfig"
    and "conditionFn rt edgeConfig state graph = Some (Routed out ''__end__'' graph')"
  shows "states = [state] \<and> ending = Terminated"
  using assms by (cases rule: graphRun.cases) auto

text \<open>
  C10, as the code has it. The router of \<open>routeOrPrepareToolExecutor\<close> computes the
  tool-executor key for a state. If the target map of the edge has no entry for that
  key, or maps it to the empty string or to \<open>__end__\<close>, the router reports this on
  the console and returns \<open>__end__\<close>, with the graph as it was; and a run of the
  graph that has come to this state by a node with this edge yields the state and
  ends there, terminated, and in no other way. Otherwise the router returns the
  tool-executor key, and in the graph the mapped name now is a tool-executor node
  made from the state (a node of that name is replaced).
\<close>

theorem tool_executor_routing:
  fixes rt :: "'s routing"
  assumes "routeNextNode rt state = TOOL_EXECUTOR rt"
  shows "(map_of (targetMap edgeConfig) (TOOL_EXECUTOR rt) = None
          \<or> map_of (targetMap edgeConfig) (TOOL_EXECUTOR rt) = Some []
          \<or> map_of (targetMap edgeConfig) (TOOL_EXECUTOR rt) = Some ''__end__''
          \<longrightarrow> routeOrPrepareToolExecutor rt state graphInstance edgeConfig
              = Routed
                  [(ERROR, ''[ConfigurableGraph Cond] Tool executor node name not found in targetMap or is __end__. Routing to __end__.'')]
                  ''__end__'' graphInstance
            \<and> (\<forall>graph current node before.
                  map_of (sg_nodes graph) current = Some node
                  \<and> invokeNode nm node before = Some state
                  \<and> map_of (sg_conditionalEdges graph) current = Some edgeConfig
                  \<and> conditionType edgeConfig = ''routeOrPrepareToolExecutor''
                  \<longrightarrow> graphRun rt nm graph current before [state] Terminated
                      \<and> (\<forall>states ending.
                            graphRun rt nm graph current before states ending
                            \<longrightarrow> states = [state] \<and> ending = Terminated)))
         \<and> (\<forall>mapped.
               map_of (targetMap edgeConfig) (TOOL_EXECUTOR rt) = Some mapped
               \<and> mapped \<noteq> [] \<and> mapped \<noteq> ''__end__''
               \<longrightarrow> routeOrPrepareToolExecutor rt state graphInstance edgeConfig
                   = Routed
                       [(LOG, ''[ConfigurableGraph Cond] Dynamically creating/updating tool executor: ''
                              @ mapped)]
                       (TOOL_EXECUTOR rt)
                       (graphInstance
                          \<lparr> sg_nodes :=
                              AList.update mapped (ToolExecutorNode state)
                                (sg_nodes graphInstance) \<rparr>))"
proof (intro conjI impI allI)
  assume ended: "map_of (targetMap edgeConfig) (TOOL_EXECUTOR rt) = None
          \<or> map_of (targetMap edgeConfig) (TOOL_EXECUTOR rt) = Some []
          \<or> map_of (targetMap edgeConfig) (TOOL_EXECUTOR rt) = Some ''__end__''"
  have routed: "routeOrPrepareToolExecutor rt state g edgeConfig
        = Routed
            [(ERROR, ''[ConfigurableGraph Cond] Tool executor node name not found in targetMap or is __end__. Routing to __end__.'')]
            ''__end__'' g" for g
    using assms ended by (auto simp: routeOrPrepareToolExecutor_def Let_def)
  show "routeOrPrepareToolExecutor rt state graphInstance edgeConfig
        = Routed
            [(ERROR, ''[ConfigurableGraph Cond] Tool executor node name not found in targetMap or is __end__. Routing to __end__.'')]
            ''__end__'' graphInstance"
    by (rule routed)
  fix graph :: "'s state_graph" and current node before
  assume at: "map_of (sg_nodes graph) current = Some node
              \<and> invokeNode nm node before = Some state
              \<and> map_of (sg_conditionalEdges graph) current = Some edgeConfig
              \<and> conditionType edgeConfig = ''routeOrPrepareToolExecutor''"
  then have cond: "conditionFn rt edgeConfig state graph
                   = Some (Routed
                             [(ERROR, ''[ConfigurableGraph Cond] Tool executor node name not found in targetMap or is __end__. Routing to __end__.'')]
                             ''__end__'' graph)"
    by (simp add: conditionFn_def conditionFactories_def routed)
  from at cond show "graphRun rt nm graph current before [state] Terminated"
    by (blast intro: graphRun.halt)
  fix states ending
  assume "graphRun rt nm graph current before states ending"
  from graphRun_end_key [OF this _ _ _ cond] at
  show "states = [state]" and "ending = Terminated"
    by blast+
next
  fix mapped
  assume "map_of (targetMap edgeConfig) (TOOL_EXECUTOR rt) = Some mapped
          \<and> mapped \<noteq> [] \<and> mapped \<noteq> ''__end__''"
  with assms
  show "routeOrPrepareToolExecutor rt state graphInstance edgeConfig
        = Routed
            [(LOG, ''[ConfigurableGraph Cond] Dynamically creating/updating tool executor: ''
                   @ mapped)]
            (TOOL_EXECUTOR rt)
            (graphInstance
               \<lparr> sg_nodes :=
                   AList.update mapped (ToolExecutorNode state) (sg_nodes graphInstance) \<rparr>)"
    by (simp add: routeOrPrepareToolExecutor_def Let_def addNode_def)
qed

theorem tool_executor_routing_witness:
  "routeOrPrepareToolExecutor demoRouting [''tool_executor''] (demoGraph ''__end__'')
     (demoEdge ''__end__'')
   = Routed
       [(ERROR, ''[ConfigurableGraph Cond] Tool executor node name not found in targetMap or is __end__. Routing to __end__.'')]
       ''__end__'' (demoGraph ''__end__'')
   \<and> graphRun demoRouting demoMeaning (demoGraph ''__end__'') ''agent''
       [''go'', ''tool_executor''] [[''tool_executor'']] Terminated
   \<and> routeOrPrepareToolExecutor demoRouting [''tool_executor''] (demoGraph ''tools'')
       (demoEdge ''tools'')
     = Routed
         [(LOG, ''[ConfigurableGraph Cond] Dynamically creating/updating tool executor: tools'')]
         ''tool_executor''
         \<lparr> sg_name = ''demo'',
           sg_nodes = [(''agent'', AgentNode), (''tools'', ToolExecutorNode [''tool_executor''])],
           sg_conditionalEdges = [(''agent'', demoEdge ''tools'')],
           sg_entryPoint = Some ''agent'' \<rparr>"
proof -
  have key: "routeNextNode demoRouting [''tool_executor''] = TOOL_EXECUTOR demoRouting"
    by (simp add: demoRouting_def)
  have ended: "map_of (targetMap (demoEdge ''__end__'')) (TOOL_EXECUTOR demoRouting)
               = Some ''__end__''"
    by (simp add: demoEdge_def demoRouting_def)
  have mapped: "map_of (targetMap (demoEdge ''tools'')) (TOOL_EXECUTOR demoRouting)
                = Some ''tools'' \<and> ''tools'' \<noteq> [] \<and> ''tools'' \<noteq> ''__end__''"
    by (simp add: demoEdge_def demoRouting_def)
  have at: "map_of (sg_nodes (demoGraph ''__end__'')) ''agent'' = Some AgentNode
            \<and> invokeNode demoMeaning AgentNode [''go'', ''tool_executor'']
                = Some [''tool_executor'']
            \<and> map_of (sg_conditionalEdges (demoGraph ''__end__'')) ''agent''
                = Some (demoEdge ''__end__'')
            \<and> conditionType (demoEdge ''__end__'') = ''routeOrPrepareToolExecutor''"
    by (simp add: demoGraph_def demoMeaning_def demoEdge_def)
  have name: "TOOL_EXECUTOR demoRouting = ''tool_executor''"
    by (simp add: demoRouting_def)
  have updated: "demoGraph ''tools''
                   \<lparr> sg_nodes := AList.update ''tools'' (ToolExecutorNode [''tool_executor''])
                                    (sg_nodes (demoGraph ''tools'')) \<rparr>
                 = \<lparr> sg_name = ''demo'',
                     sg_nodes = [(''agent'', AgentNode),
                                 (''tools'', ToolExecutorNode [''tool_executor''])],
                     sg_conditionalEdges = [(''agent'', demoEdge ''tools'')],
                     sg_entryPoint = Some ''agent'' \<rparr>"
    by (simp add: demoGraph_def)
  from tool_executor_routing [OF key, of "demoEdge ''__end__''" "demoGraph ''__end__''"
                                demoMeaning] ended at
  have first: "routeOrPrepareToolExecutor demoRouting [''tool_executor'']
                 (demoGraph ''__end__'') (demoEdge ''__end__'')
               = Routed
                   [(ERROR, ''[ConfigurableGraph Cond] Tool executor node name not found in targetMap or is __end__. Routing to __end__.'')]
                   ''__end__'' (demoGraph ''__end__'')"
    and second: "graphRun demoRouting demoMeaning (demoGraph ''__end__'') ''agent''
                   [''go'', ''tool_executor''] [[''tool_executor'']] Terminated"
    by blast+
  from tool_executor_routing [OF key, of "demoEdge ''tools''" "demoGraph ''tools''"
                                demoMeaning] mapped
  have "routeOrPrepareToolExecutor demoRouting [''tool_executor''] (demoGraph ''tools'')
          (demoEdge ''tools'')
        = Routed
            [(LOG, ''[ConfigurableGraph Cond] Dynamically creating/updating tool executor: ''
                   @ ''tools'')]
            (TOOL_EXECUTOR demoRouting)
            (demoGraph ''tools''
               \<lparr> sg_nodes := AList.update ''tools'' (ToolExecutorNode [''tool_executor''])
                                (sg_nodes (demoGraph ''tools'')) \<rparr>)"
    by blast
  then have third: "routeOrPrepareToolExecutor demoRouting [''tool_executor'']
                      (demoGraph ''tools'') (demoEdge ''tools'')
        = Routed
            [(LOG, ''[ConfigurableGraph Cond] Dynamically creating/updating tool executor: tools'')]
            ''tool_executor''
            \<lparr> sg_name = ''demo'',
              sg_nodes = [(''agent'', AgentNode),
                          (''tools'', ToolExecutorNode [''tool_executor''])],
              sg_conditionalEdges = [(''agent'', demoEdge ''tools'')],
              sg_entryPoint = Some ''agent'' \<rparr>"
    unfolding updated name by simp
  from first second third show ?thesis
    by (intro conjI)
qed

text \<open>
  A target map that maps the tool-executor key to the empty string: the key has an
  entry, and the entry is not \<open>__end__\<close>, but the router returns \<open>__end__\<close> and adds no
  node.
\<close>

theorem tool_executor_routing_empty_name_counterexample:
  "map_of (targetMap (demoEdge [])) (TOOL_EXECUTOR demoRouting) = Some []
   \<and> routeNextNode demoRouting [''tool_executor''] = TOOL_EXECUTOR demoRouting
   \<and> routeOrPrepareToolExecutor demoRouting [''tool_executor''] (demoGraph []) (demoEdge [])
     = Routed
         [(ERROR, ''[ConfigurableGraph Cond] Tool executor node name not found in targetMap or is __end__. Routing to __end__.'')]
         ''__end__'' (demoGraph [])"
  by (simp add: routeOrPrepareToolExecutor_def demoRouting_def demoEdge_def Let_def)

end
